theory Spec2Isabelle
  imports
    Main
    "HOL-Library.Char_ord"
    "HOL-Library.List_Lexorder"
    "HOL-Library.Option_ord"
    "HOL-Library.Sublist"
    "HOL-Library.AList"
begin

section \<open>TaskMeister: the store, the availability rule, the batch commit and the history view\<close>

text \<open>
  A shallow embedding of \<^verbatim>\<open>src/taskmeister.py\<close>. Text is a \<open>string\<close> (the UTF-8 bytes of
  the Python \<open>str\<close>), Python integers are \<open>int\<close>, an SQL \<open>NULL\<close> (Python \<open>None\<close>) is
  \<open>None\<close>. The tkinter widgets are left out; what a handler reads from them (the selected
  worker, the check boxes, the quantities, the comments, the date picker) is the state
  record \<open>app\<close>, and what it shows in a message box is part of its result.
\<close>

subsection \<open>Library functions the source calls\<close>

text \<open>
  Four functions of Python and SQLite are used by the source but are no part of it. They
  are taken as parameters, so every theorem holds whatever they compute:
  \<^item> \<open>sqlite_DATE\<close>: SQLite's \<^verbatim>\<open>DATE(x)\<close> on text (\<open>None\<close> is \<open>NULL\<close>);
  \<^item> \<open>str_lower\<close>: Python's \<^verbatim>\<open>str.lower()\<close>;
  \<^item> \<open>reformat_date\<close>: \<^verbatim>\<open>datetime.strptime(s, '%Y-%m-%d').strftime('%d.%m.%Y')\<close>,
    \<open>None\<close> when it raises;
  \<^item> \<open>reformat_timestamp\<close>:
    \<^verbatim>\<open>datetime.strptime(s, '%Y-%m-%d %H:%M:%S').strftime('%d.%m.%Y %H:%M')\<close>, \<open>None\<close> when it
    raises.
\<close>

record pylib =
  sqlite_DATE :: "string \<Rightarrow> string option"
  str_lower :: "string \<Rightarrow> string"
  reformat_date :: "string \<Rightarrow> string option"
  reformat_timestamp :: "string \<Rightarrow> string option"

text \<open>Exceptions: \<^verbatim>\<open>sqlite3.Error\<close> with its message, and any other \<^verbatim>\<open>Exception\<close>.\<close>

datatype exn = sqlite3_Error string | Exception string

fun str_exn :: "exn \<Rightarrow> string" where
  "str_exn (sqlite3_Error m) = m"
| "str_exn (Exception m) = m"

subsection \<open>Persisted state\<close>

text \<open>
  Rows of \<^verbatim>\<open>workers\<close> are the tuples \<open>(id, name, email)\<close>, rows of \<^verbatim>\<open>houses\<close> the tuples
  \<open>(id, name)\<close>, as the source unpacks them. A row of \<^verbatim>\<open>assignment_history\<close> has the six
  columns of \<^verbatim>\<open>_create_tables\<close> and the two that \<^verbatim>\<open>_migrate_database\<close> adds; every
  column but the key may hold \<open>NULL\<close>.
\<close>

type_synonym worker = "int \<times> string \<times> string"
type_synonym house = "int \<times> string"

record assignment =
  a_id :: int
  worker_id :: "int option"
  house_id :: "int option"
  quantity :: "int option"
  a_note :: "string option"
  date_assigned :: "string option"
  assignment_date :: "string option"
  email_sent :: "int option"

text \<open>
  A database file: each table is absent (\<open>None\<close>) or holds its rows in rowid order;
  \<^verbatim>\<open>assignment_history\<close> comes with its live column names, as
  \<^verbatim>\<open>PRAGMA table_info\<close> lists them. \<open>sqlite_sequence\<close> holds the \<^verbatim>\<open>AUTOINCREMENT\<close>
  counters.
\<close>

record database =
  workers :: "worker list option"
  houses :: "house list option"
  assignment_history :: "(string list \<times> assignment list) option"
  sqlite_sequence :: "(string \<times> int) list"

definition base_columns :: "string list" where
  "base_columns = [''id'', ''worker_id'', ''house_id'', ''quantity'', ''note'', ''date_assigned'']"

text \<open>SQLite compares identifiers without regard to ASCII case.\<close>

definition sql_lower :: "string \<Rightarrow> string" where
  "sql_lower s =
     map (\<lambda>c. if CHR ''A'' \<le> c \<and> c \<le> CHR ''Z'' then char_of (of_char c + (32::nat)) else c) s"

definition has_column :: "string list \<Rightarrow> string \<Rightarrow> bool" where
  "has_column cols c = (sql_lower c \<in> set (map sql_lower cols))"

definition no_such_table :: "string \<Rightarrow> exn" where
  "no_such_table t = sqlite3_Error (''no such table: '' @ t)"

definition no_such_column :: "string \<Rightarrow> exn" where
  "no_such_column c = sqlite3_Error (''no such column: '' @ c)"

subsection \<open>A connection and its transaction\<close>

text \<open>
  \<^verbatim>\<open>sqlite3.connect\<close> with the module's default transaction control: a transaction is
  opened implicitly before an \<^verbatim>\<open>INSERT\<close>, \<^verbatim>\<open>UPDATE\<close> or \<^verbatim>\<open>DELETE\<close>, and before nothing
  else; a \<^verbatim>\<open>CREATE TABLE\<close> or \<^verbatim>\<open>ALTER TABLE\<close> that runs while no transaction is open
  takes effect at once. \<open>committed\<close> is the file, \<open>working\<close> what the connection sees.
  A statement that fails changes nothing.
\<close>

record connection =
  committed :: database
  working :: database
  in_transaction :: bool

definition connect :: "database \<Rightarrow> connection" where
  "connect d = \<lparr>committed = d, working = d, in_transaction = False\<rparr>"

definition execute_ddl :: "(database \<Rightarrow> exn + database) \<Rightarrow> connection \<Rightarrow> exn + connection" where
  "execute_ddl stmt c =
     (case stmt (working c) of
        Inl e \<Rightarrow> Inl e
      | Inr d \<Rightarrow> Inr (if in_transaction c then c\<lparr>working := d\<rparr>
                      else c\<lparr>committed := d, working := d\<rparr>))"

definition execute_dml :: "(database \<Rightarrow> exn + database) \<Rightarrow> connection \<Rightarrow> exn + connection" where
  "execute_dml stmt c =
     (case stmt (working c) of
        Inl e \<Rightarrow> Inl e
      | Inr d \<Rightarrow> Inr (c\<lparr>working := d, in_transaction := True\<rparr>))"

definition commit :: "connection \<Rightarrow> connection" where
  "commit c = c\<lparr>committed := working c, in_transaction := False\<rparr>"

definition rollback :: "connection \<Rightarrow> connection" where
  "rollback c = c\<lparr>working := committed c, in_transaction := False\<rparr>"

text \<open>Closing drops what was not committed; the file is what remains.\<close>

definition close :: "connection \<Rightarrow> database" where
  "close c = committed c"

subsection \<open>DatabaseManager: schema creation and migration\<close>

text \<open>The three \<^verbatim>\<open>CREATE TABLE IF NOT EXISTS\<close> statements of \<^verbatim>\<open>_create_tables\<close>.\<close>

definition create_workers :: "database \<Rightarrow> exn + database" where
  "create_workers d =
     Inr (case workers d of None \<Rightarrow> d\<lparr>workers := Some []\<rparr> | Some _ \<Rightarrow> d)"

definition create_houses :: "database \<Rightarrow> exn + database" where
  "create_houses d =
     Inr (case houses d of None \<Rightarrow> d\<lparr>houses := Some []\<rparr> | Some _ \<Rightarrow> d)"

definition create_assignment_history :: "database \<Rightarrow> exn + database" where
  "create_assignment_history d =
     Inr (case assignment_history d of
            None \<Rightarrow> d\<lparr>assignment_history := Some (base_columns, [])\<rparr>
          | Some _ \<Rightarrow> d)"

text \<open>
  A procedure that runs statements on a connection returns the exception that left it
  (if any), the connection as it then stands, and the lines it printed.
\<close>

type_synonym run = "exn option \<times> connection \<times> string list"

definition create_tables :: "connection \<Rightarrow> run" where
  "create_tables c =
     (case execute_ddl create_workers c of
        Inl e \<Rightarrow> (Some e, c, [])
      | Inr c1 \<Rightarrow>
         (case execute_ddl create_houses c1 of
            Inl e \<Rightarrow> (Some e, c1, [])
          | Inr c2 \<Rightarrow>
             (case execute_ddl create_assignment_history c2 of
                Inl e \<Rightarrow> (Some e, c2, [])
              | Inr c3 \<Rightarrow> (None, c3, []))))"

text \<open>\<^verbatim>\<open>PRAGMA table_info(assignment_history)\<close>: the column names; no row for a missing table.\<close>

definition table_info :: "connection \<Rightarrow> string list" where
  "table_info c = (case assignment_history (working c) of None \<Rightarrow> [] | Some t \<Rightarrow> fst t)"

text \<open>
  \<^verbatim>\<open>ALTER TABLE assignment_history ADD COLUMN c\<close>; \<open>dflt\<close> gives each existing row the
  new column's default.
\<close>

definition alter_add_column ::
  "string \<Rightarrow> (assignment \<Rightarrow> assignment) \<Rightarrow> database \<Rightarrow> exn + database" where
  "alter_add_column c dflt d =
     (case assignment_history d of
        None \<Rightarrow> Inl (no_such_table ''assignment_history'')
      | Some (cols, rs) \<Rightarrow>
          if has_column cols c then Inl (sqlite3_Error (''duplicate column name: '' @ c))
          else Inr (d\<lparr>assignment_history := Some (cols @ [c], map dflt rs)\<rparr>))"

text \<open>
  \<^verbatim>\<open>UPDATE assignment_history SET assignment_date = DATE(date_assigned)
  WHERE assignment_date IS NULL\<close>.
\<close>

definition backfill_assignment_date :: "pylib \<Rightarrow> database \<Rightarrow> exn + database" where
  "backfill_assignment_date L d =
     (case assignment_history d of
        None \<Rightarrow> Inl (no_such_table ''assignment_history'')
      | Some (cols, rs) \<Rightarrow>
          if \<not> has_column cols ''assignment_date'' then Inl (no_such_column ''assignment_date'')
          else if \<not> has_column cols ''date_assigned'' then Inl (no_such_column ''date_assigned'')
          else Inr (d\<lparr>assignment_history := Some (cols,
                 map (\<lambda>a. if assignment_date a = None
                           then a\<lparr>assignment_date :=
                                  (case date_assigned a of None \<Rightarrow> None | Some t \<Rightarrow> sqlite_DATE L t)\<rparr>
                           else a) rs)\<rparr>))"

text \<open>\<^verbatim>\<open>UPDATE assignment_history SET email_sent = 1 WHERE email_sent IS NULL\<close>.\<close>

definition backfill_email_sent :: "database \<Rightarrow> exn + database" where
  "backfill_email_sent d =
     (case assignment_history d of
        None \<Rightarrow> Inl (no_such_table ''assignment_history'')
      | Some (cols, rs) \<Rightarrow>
          if \<not> has_column cols ''email_sent'' then Inl (no_such_column ''email_sent'')
          else Inr (d\<lparr>assignment_history := Some (cols,
                 map (\<lambda>a. if email_sent a = None then a\<lparr>email_sent := Some 1\<rparr> else a) rs)\<rparr>))"

text \<open>
  \<^verbatim>\<open>_migrate_database\<close>: the column list is read once; each missing column is added and
  back-filled. \<^verbatim>\<open>assignment_date DATE\<close> has no default (\<open>NULL\<close>), \<^verbatim>\<open>email_sent BOOLEAN
  DEFAULT 1\<close> has the default 1.
\<close>

definition add_assignment_date :: "pylib \<Rightarrow> connection \<Rightarrow> run" where
  "add_assignment_date L c =
     (case execute_ddl (alter_add_column ''assignment_date'' (\<lambda>a. a\<lparr>assignment_date := None\<rparr>)) c of
        Inl e \<Rightarrow> (Some e, c, [])
      | Inr c1 \<Rightarrow>
         (case execute_dml (backfill_assignment_date L) c1 of
            Inl e \<Rightarrow> (Some e, c1, [])
          | Inr c2 \<Rightarrow> (None, c2, [''Added assignment_date column.''])))"

definition add_email_sent :: "connection \<Rightarrow> run" where
  "add_email_sent c =
     (case execute_ddl (alter_add_column ''email_sent'' (\<lambda>a. a\<lparr>email_sent := Some 1\<rparr>)) c of
        Inl e \<Rightarrow> (Some e, c, [])
      | Inr c1 \<Rightarrow>
         (case execute_dml backfill_email_sent c1 of
            Inl e \<Rightarrow> (Some e, c1, [])
          | Inr c2 \<Rightarrow> (None, c2, [''Added email_sent column.''])))"

definition migrate_database :: "pylib \<Rightarrow> connection \<Rightarrow> run" where
  "migrate_database L c =
     (let columns = table_info c in
      case (if ''assignment_date'' \<notin> set columns then add_assignment_date L c else (None, c, [])) of
        (Some e, c1, out1) \<Rightarrow> (Some e, c1, out1)
      | (None, c1, out1) \<Rightarrow>
          (case (if ''email_sent'' \<notin> set columns then add_email_sent c1 else (None, c1, [])) of
             (r, c2, out2) \<Rightarrow> (r, c2, out1 @ out2)))"

text \<open>The two calls at the head of the \<^verbatim>\<open>try\<close> block of \<^verbatim>\<open>initialize_database\<close>.\<close>

definition create_and_migrate :: "pylib \<Rightarrow> connection \<Rightarrow> run" where
  "create_and_migrate L c =
     (case create_tables c of
        (Some e, c1, out1) \<Rightarrow> (Some e, c1, out1)
      | (None, c1, out1) \<Rightarrow>
          (case migrate_database L c1 of (r, c2, out2) \<Rightarrow> (r, c2, out1 @ out2)))"

text \<open>
  \<^verbatim>\<open>initialize_database\<close>: create, migrate, commit and print; an \<^verbatim>\<open>sqlite3.Error\<close> is
  caught, printed and followed by a rollback; the connection is closed either way. The
  result is the exception that reaches the caller, the file as it is left, and the
  printed lines.
\<close>

definition initialize_database :: "pylib \<Rightarrow> database \<Rightarrow> exn option \<times> database \<times> string list" where
  "initialize_database L d =
     (case create_and_migrate L (connect d) of
        (None, c, out) \<Rightarrow>
          (None, close (commit c), out @ [''Database initialized successfully.''])
      | (Some (sqlite3_Error m), c, out) \<Rightarrow>
          (None, close (rollback c), out @ [''Database initialization error: '' @ m])
      | (Some e, c, out) \<Rightarrow> (Some e, close c, out))"

text \<open>A store is migrated when the three tables exist and both added columns are listed.\<close>

definition migrated :: "database \<Rightarrow> bool" where
  "migrated d =
     (workers d \<noteq> None \<and> houses d \<noteq> None \<and>
      (case assignment_history d of
         None \<Rightarrow> False
       | Some (cols, rs) \<Rightarrow> ''assignment_date'' \<in> set cols \<and> ''email_sent'' \<in> set cols))"

text \<open>The schema (which tables exist, with which columns) and the row count of every table.\<close>

definition schema :: "database \<Rightarrow> bool \<times> bool \<times> string list option" where
  "schema d = (workers d \<noteq> None, houses d \<noteq> None, map_option fst (assignment_history d))"

definition row_counts :: "database \<Rightarrow> nat option \<times> nat option \<times> nat option" where
  "row_counts d =
     (map_option length (workers d), map_option length (houses d),
      map_option (\<lambda>t. length (snd t)) (assignment_history d))"

subsection \<open>DatabaseManager: the repository calls\<close>

text \<open>
  \<^verbatim>\<open>execute\<close> opens a connection, runs one statement, commits and closes; \<^verbatim>\<open>fetch_all\<close>
  opens a connection, runs one query and closes. Neither catches anything: an error of the
  statement leaves through the \<^verbatim>\<open>finally\<close> clause and the file is as before.
\<close>

definition execute :: "(database \<Rightarrow> exn + database) \<Rightarrow> database \<Rightarrow> exn + database" where
  "execute stmt d =
     (case execute_dml stmt (connect d) of
        Inl e \<Rightarrow> Inl e
      | Inr c \<Rightarrow> Inr (close (commit c)))"

definition fetch_all :: "(database \<Rightarrow> exn + 'r list) \<Rightarrow> database \<Rightarrow> exn + 'r list" where
  "fetch_all query d = query (working (connect d))"

text \<open>
  The key an \<^verbatim>\<open>INTEGER PRIMARY KEY AUTOINCREMENT\<close> column gets: one more than the largest
  key the table ever held.
\<close>

definition autoincrement :: "database \<Rightarrow> string \<Rightarrow> int list \<Rightarrow> int" where
  "autoincrement d t ids =
     max (case map_of (sqlite_sequence d) t of None \<Rightarrow> 0 | Some n \<Rightarrow> n) (fold max ids 0) + 1"

text \<open>\<^verbatim>\<open>SELECT id, name, email FROM workers ORDER BY name ASC\<close>.\<close>

definition select_workers :: "database \<Rightarrow> exn + worker list" where
  "select_workers d =
     (case workers d of
        None \<Rightarrow> Inl (no_such_table ''workers'')
      | Some ws \<Rightarrow> Inr (sort_key (\<lambda>w. fst (snd w)) ws))"

text \<open>\<^verbatim>\<open>INSERT INTO workers(name, email) VALUES(?, ?)\<close>.\<close>

definition insert_worker :: "string \<Rightarrow> string \<Rightarrow> database \<Rightarrow> exn + database" where
  "insert_worker name email d =
     (case workers d of
        None \<Rightarrow> Inl (no_such_table ''workers'')
      | Some ws \<Rightarrow>
          (let i = autoincrement d ''workers'' (map fst ws)
           in Inr (d\<lparr>workers := Some (ws @ [(i, name, email)]),
                     sqlite_sequence := AList.update ''workers'' i (sqlite_sequence d)\<rparr>)))"

text \<open>\<^verbatim>\<open>UPDATE workers SET name=?, email=? WHERE id=?\<close>.\<close>

definition update_worker :: "string \<Rightarrow> string \<Rightarrow> int \<Rightarrow> database \<Rightarrow> exn + database" where
  "update_worker name email wid d =
     (case workers d of
        None \<Rightarrow> Inl (no_such_table ''workers'')
      | Some ws \<Rightarrow>
          Inr (d\<lparr>workers := Some (map (\<lambda>w. if fst w = wid then (wid, name, email) else w) ws)\<rparr>))"

text \<open>\<^verbatim>\<open>DELETE FROM workers WHERE id=?\<close>. Foreign keys are not enforced (the source never
  switches them on), so rows of \<^verbatim>\<open>assignment_history\<close> may keep the deleted key.\<close>

definition delete_worker_row :: "int \<Rightarrow> database \<Rightarrow> exn + database" where
  "delete_worker_row wid d =
     (case workers d of
        None \<Rightarrow> Inl (no_such_table ''workers'')
      | Some ws \<Rightarrow> Inr (d\<lparr>workers := Some (filter (\<lambda>w. fst w \<noteq> wid) ws)\<rparr>))"

text \<open>\<^verbatim>\<open>SELECT id, name FROM houses ORDER BY name ASC\<close>.\<close>

definition select_houses :: "database \<Rightarrow> exn + house list" where
  "select_houses d =
     (case houses d of
        None \<Rightarrow> Inl (no_such_table ''houses'')
      | Some hs \<Rightarrow> Inr (sort_key snd hs))"

text \<open>\<^verbatim>\<open>INSERT INTO houses(name) VALUES(?)\<close>.\<close>

definition insert_house :: "string \<Rightarrow> database \<Rightarrow> exn + database" where
  "insert_house name d =
     (case houses d of
        None \<Rightarrow> Inl (no_such_table ''houses'')
      | Some hs \<Rightarrow>
          (let i = autoincrement d ''houses'' (map fst hs)
           in Inr (d\<lparr>houses := Some (hs @ [(i, name)]),
                     sqlite_sequence := AList.update ''houses'' i (sqlite_sequence d)\<rparr>)))"

text \<open>\<^verbatim>\<open>UPDATE houses SET name=? WHERE id=?\<close>.\<close>

definition update_house :: "string \<Rightarrow> int \<Rightarrow> database \<Rightarrow> exn + database" where
  "update_house name hid d =
     (case houses d of
        None \<Rightarrow> Inl (no_such_table ''houses'')
      | Some hs \<Rightarrow>
          Inr (d\<lparr>houses := Some (map (\<lambda>h. if fst h = hid then (hid, name) else h) hs)\<rparr>))"

text \<open>\<^verbatim>\<open>DELETE FROM houses WHERE id=?\<close>.\<close>

definition delete_house_row :: "int \<Rightarrow> database \<Rightarrow> exn + database" where
  "delete_house_row hid d =
     (case houses d of
        None \<Rightarrow> Inl (no_such_table ''houses'')
      | Some hs \<Rightarrow> Inr (d\<lparr>houses := Some (filter (\<lambda>h. fst h \<noteq> hid) hs)\<rparr>))"

text \<open>The first of the named columns that the table does not have.\<close>

definition missing_column :: "string list \<Rightarrow> string list \<Rightarrow> string option" where
  "missing_column cols needed = find (\<lambda>c. \<not> has_column cols c) needed"

text \<open>
  \<^verbatim>\<open>SELECT DISTINCT house_id FROM assignment_history
  WHERE assignment_date = ? AND email_sent = 1\<close>; a \<open>NULL\<close> never compares equal.
\<close>

definition select_assigned_houses :: "string \<Rightarrow> database \<Rightarrow> exn + int option list" where
  "select_assigned_houses date_str d =
     (case assignment_history d of
        None \<Rightarrow> Inl (no_such_table ''assignment_history'')
      | Some (cols, rs) \<Rightarrow>
          (case missing_column cols [''house_id'', ''assignment_date'', ''email_sent''] of
             Some c \<Rightarrow> Inl (no_such_column c)
           | None \<Rightarrow>
               Inr (remdups (map house_id
                 (filter (\<lambda>a. assignment_date a = Some date_str \<and> email_sent a = Some 1) rs)))))"

text \<open>
  \<^verbatim>\<open>INSERT INTO assignment_history(worker_id, house_id, quantity, note, assignment_date,
  email_sent) VALUES (?, ?, ?, ?, ?, 1)\<close>, run when \<^verbatim>\<open>CURRENT_TIMESTAMP\<close> is \<open>now\<close>, the
  default of \<^verbatim>\<open>date_assigned\<close>.
\<close>

definition insert_assignment ::
  "string \<Rightarrow> int \<Rightarrow> int \<Rightarrow> int \<Rightarrow> string \<Rightarrow> string \<Rightarrow> database \<Rightarrow> exn + database" where
  "insert_assignment now wid hid qty nt date_str d =
     (case assignment_history d of
        None \<Rightarrow> Inl (no_such_table ''assignment_history'')
      | Some (cols, rs) \<Rightarrow>
          (case missing_column cols
                  [''worker_id'', ''house_id'', ''quantity'', ''note'', ''assignment_date'', ''email_sent''] of
             Some c \<Rightarrow> Inl (sqlite3_Error (''table assignment_history has no column named '' @ c))
           | None \<Rightarrow>
               (let i = autoincrement d ''assignment_history'' (map a_id rs)
                in Inr (d\<lparr>assignment_history := Some (cols, rs @
                            [\<lparr>a_id = i, worker_id = Some wid, house_id = Some hid,
                              quantity = Some qty, a_note = Some nt,
                              date_assigned =
                                (if has_column cols ''date_assigned'' then Some now else None),
                              assignment_date = Some date_str, email_sent = Some 1\<rparr>]),
                          sqlite_sequence :=
                            AList.update ''assignment_history'' i (sqlite_sequence d)\<rparr>))))"

text \<open>
  Descending order that keeps rows with equal keys in the order they were produced;
  \<open>NULL\<close> is the smallest key.
\<close>

definition order_by_desc :: "('r \<Rightarrow> 'k::linorder) \<Rightarrow> 'r list \<Rightarrow> 'r list" where
  "order_by_desc key xs = rev (sort_key key (rev xs))"

text \<open>
  The join of the history query: every assignment row with the worker and the house its
  keys name, in the order of \<^verbatim>\<open>ORDER BY a.date_assigned DESC\<close>.
\<close>

definition history_join :: "worker list \<Rightarrow> house list \<Rightarrow> assignment list \<Rightarrow> (assignment \<times> worker \<times> house) list" where
  "history_join ws hs rs =
     order_by_desc (\<lambda>r. date_assigned (fst r))
       (concat (map (\<lambda>a.
          concat (map (\<lambda>w. map (\<lambda>h. (a, w, h)) (filter (\<lambda>h. house_id a = Some (fst h)) hs))
                      (filter (\<lambda>w. worker_id a = Some (fst w)) ws))) rs))"

text \<open>
  The row the history query returns: worker name, house name, quantity, note, assignment
  date, record date, delivery flag.
\<close>

type_synonym history_row =
  "string \<times> string \<times> int option \<times> string option \<times> string option \<times> string option \<times> int option"

definition history_columns :: "assignment \<times> worker \<times> house \<Rightarrow> history_row" where
  "history_columns r =
     (case r of (a, w, h) \<Rightarrow>
        (fst (snd w), snd h, quantity a, a_note a, assignment_date a, date_assigned a, email_sent a))"

text \<open>
  \<^verbatim>\<open>SELECT w.name, h.name, a.quantity, a.note, a.assignment_date, a.date_assigned,
  a.email_sent FROM assignment_history a JOIN workers w ON a.worker_id = w.id
  JOIN houses h ON a.house_id = h.id ORDER BY a.date_assigned DESC\<close>.
\<close>

definition select_history :: "database \<Rightarrow> exn + history_row list" where
  "select_history d =
     (case assignment_history d of
        None \<Rightarrow> Inl (no_such_table ''assignment_history'')
      | Some (cols, rs) \<Rightarrow>
          (case workers d of
             None \<Rightarrow> Inl (no_such_table ''workers'')
           | Some ws \<Rightarrow>
               (case houses d of
                  None \<Rightarrow> Inl (no_such_table ''houses'')
                | Some hs \<Rightarrow>
                    (case missing_column cols
                            [''quantity'', ''note'', ''assignment_date'', ''date_assigned'',
                             ''email_sent'', ''worker_id'', ''house_id''] of
                       Some c \<Rightarrow> Inl (no_such_column (''a.'' @ c))
                     | None \<Rightarrow> Inr (map history_columns (history_join ws hs rs))))))"

subsection \<open>Python strings and dates\<close>

definition newline :: string where
  "newline = [CHR 0x0A]"

text \<open>The arrow U+2192 of the e-mail template, in UTF-8.\<close>

definition arrow :: string where
  "arrow = [CHR 0xE2, CHR 0x86, CHR 0x92]"

text \<open>\<^verbatim>\<open>str(n)\<close> of an integer.\<close>

fun str_nat :: "nat \<Rightarrow> string" where
  "str_nat n =
     (if n < 10 then [''0123456789'' ! n]
      else str_nat (n div 10) @ [''0123456789'' ! (n mod 10)])"

definition str_int :: "int \<Rightarrow> string" where
  "str_int i = (if i < 0 then CHR ''-'' # str_nat (nat (- i)) else str_nat (nat i))"

text \<open>\<^verbatim>\<open>sep.join(xs)\<close>.\<close>

fun join :: "string \<Rightarrow> string list \<Rightarrow> string" where
  "join sep [] = []"
| "join sep [x] = x"
| "join sep (x # y # ys) = x @ sep @ join sep (y # ys)"

text \<open>\<^verbatim>\<open>hay.startswith(needle)\<close> and \<^verbatim>\<open>needle in hay\<close>.\<close>

fun startswith :: "string \<Rightarrow> string \<Rightarrow> bool" where
  "startswith hay [] = True"
| "startswith [] (n # ns) = False"
| "startswith (h # hs) (n # ns) = (h = n \<and> startswith hs ns)"

fun str_in :: "string \<Rightarrow> string \<Rightarrow> bool" where
  "str_in needle [] = (needle = [])"
| "str_in needle (h # hs) = (startswith (h # hs) needle \<or> str_in needle hs)"

text \<open>
  A \<^verbatim>\<open>datetime.date\<close> is (year, month, day); \<^verbatim>\<open>strftime('%Y-%m-%d')\<close> and
  \<^verbatim>\<open>strftime('%d.%m.%Y')\<close> write the year with four digits and month and day with two.
\<close>

type_synonym date = "nat \<times> nat \<times> nat"

definition zero_pad :: "nat \<Rightarrow> string \<Rightarrow> string" where
  "zero_pad w s = replicate (w - length s) (CHR ''0'') @ s"

definition strftime_Ymd :: "date \<Rightarrow> string" where
  "strftime_Ymd dt =
     (case dt of (y, m, d) \<Rightarrow>
        zero_pad 4 (str_nat y) @ ''-'' @ zero_pad 2 (str_nat m) @ ''-'' @ zero_pad 2 (str_nat d))"

definition strftime_dmY :: "date \<Rightarrow> string" where
  "strftime_dmY dt =
     (case dt of (y, m, d) \<Rightarrow>
        zero_pad 2 (str_nat d) @ ''.'' @ zero_pad 2 (str_nat m) @ ''.'' @ zero_pad 4 (str_nat y))"

subsection \<open>EmailService\<close>

text \<open>
  An entry of \<^verbatim>\<open>assignments\<close> is the dictionary with the keys \<^verbatim>\<open>house_name\<close>,
  \<^verbatim>\<open>quantity\<close> and \<^verbatim>\<open>note\<close>, here the triple of their values; \<open>date_text\<close> is the
  parameter \<^verbatim>\<open>assignment_date\<close> (the name is taken by the column).
\<close>

type_synonym email_assignment = "string \<times> int \<times> string"

text \<open>The body of the loop of \<^verbatim>\<open>_create_email_body\<close>: the line of one assignment.\<close>

definition email_line :: "email_assignment \<Rightarrow> string" where
  "email_line assignment =
     (case assignment of (house_name, qty, nt) \<Rightarrow>
        (let line = ''- '' @ house_name @ '' '' @ arrow @ '' '' @ str_int qty @ '' bedding sets''
         in if nt \<noteq> [] then line @ '' | Note: '' @ nt else line))"

text \<open>The loop: \<^verbatim>\<open>lines.append(line)\<close> for each assignment in turn.\<close>

fun email_lines :: "string list \<Rightarrow> email_assignment list \<Rightarrow> string list" where
  "email_lines lines [] = lines"
| "email_lines lines (assignment # rest) = email_lines (lines @ [email_line assignment]) rest"

definition create_email_body :: "string \<Rightarrow> email_assignment list \<Rightarrow> string \<Rightarrow> string" where
  "create_email_body worker_name assignments date_text =
     (let lines = email_lines [] assignments;
          body0 = ''Hello '' @ worker_name @ '','' @ newline @ newline;
          body1 = body0 @ ''Date: '' @ date_text @ newline;
          body2 = body1 @ ''You have been assigned to the following houses:'' @ newline @ newline;
          body3 = body2 @ join newline lines;
          body4 = body3 @ newline @ newline @ ''Good luck with your work!''
      in body4)"

text \<open>
  What the outside world supplies: the value of \<^verbatim>\<open>CURRENT_TIMESTAMP\<close> at the \<open>k\<close>-th
  \<^verbatim>\<open>INSERT\<close> of a batch, and the SMTP session (recipient, subject, body), which either
  delivers (\<open>None\<close>) or raises.
\<close>

record env =
  clock :: "nat \<Rightarrow> string"
  smtp_send :: "string \<Rightarrow> string \<Rightarrow> string \<Rightarrow> exn option"

definition send_assignment_email ::
  "env \<Rightarrow> string \<Rightarrow> string \<Rightarrow> email_assignment list \<Rightarrow> string \<Rightarrow> exn option" where
  "send_assignment_email E to_email worker_name assignments date_text =
     (let subject = ''Work Assignment - '' @ date_text;
          body = create_email_body worker_name assignments date_text
      in smtp_send E to_email subject body)"


subsection \<open>TaskMeisterApp: state\<close>

text \<open>
  The fields of \<^verbatim>\<open>TaskMeisterApp\<close> the handlers read and write. A Python dictionary is an
  association list in insertion order (\<open>AList.update\<close> replaces in place or appends, as
  item assignment does). \<open>house_vars\<close> and \<open>house_qty\<close> hold the values of the check box
  and of the quantity box of each listed house; \<open>date_picker\<close> is the date the picker
  shows, and \<open>None\<close> when \<^verbatim>\<open>tkcalendar\<close> is not installed.
\<close>

record app =
  db_manager :: database
  current_worker :: "worker option"
  workers_cache :: "worker list"
  all_houses :: "house list"
  house_vars :: "(int \<times> int) list"
  house_qty :: "(int \<times> int) list"
  house_notes :: "(int \<times> string) list"
  date_picker :: "date option"

text \<open>The message boxes a handler shows.\<close>

datatype dialog = showerror string | showinfo string

text \<open>
  A handler returns the exception that leaves it (if any), the state, and the message
  boxes it showed, in order.
\<close>

type_synonym result = "exn option \<times> app \<times> dialog list"

subsection \<open>TaskMeisterApp: workers and houses\<close>

definition refresh_workers :: "app \<Rightarrow> exn option \<times> app" where
  "refresh_workers s =
     (case fetch_all select_workers (db_manager s) of
        Inl e \<Rightarrow> (Some e, s)
      | Inr rows \<Rightarrow> (None, s\<lparr>workers_cache := rows\<rparr>))"

definition clear_house_selections :: "app \<Rightarrow> app" where
  "clear_house_selections s =
     s\<lparr>house_vars := map (\<lambda>(hid, v). (hid, 0)) (house_vars s),
       house_qty := map (\<lambda>(hid, q). (hid, 1)) (house_qty s),
       house_notes := []\<rparr>"

text \<open>\<^verbatim>\<open>_get_assigned_houses_for_date\<close>.\<close>

definition get_assigned_houses_for_date :: "database \<Rightarrow> string \<Rightarrow> exn + int option list" where
  "get_assigned_houses_for_date d date_str = fetch_all (select_assigned_houses date_str) d"

text \<open>
  \<^verbatim>\<open>_refresh_houses\<close>, lines 636 to 643: the houses assigned for the selected date; the
  empty list without a date picker, and when the query raises (\<^verbatim>\<open>except: pass\<close>).
\<close>

definition assigned_houses :: "database \<Rightarrow> date option \<Rightarrow> int option list" where
  "assigned_houses d picker =
     (case picker of
        None \<Rightarrow> []
      | Some dt \<Rightarrow>
          (case get_assigned_houses_for_date d (strftime_Ymd dt) of
             Inl e \<Rightarrow> []
           | Inr ids \<Rightarrow> ids))"

text \<open>Line 646: \<^verbatim>\<open>[(hid, name) for hid, name in rows if hid not in assigned_houses]\<close>.\<close>

definition available_houses :: "house list \<Rightarrow> int option list \<Rightarrow> house list" where
  "available_houses rows assigned = filter (\<lambda>(hid, name). Some hid \<notin> set assigned) rows"

text \<open>\<^verbatim>\<open>_create_house_rows\<close>: a check box (0) and a quantity box (1) per available house.\<close>

definition create_house_rows :: "house list \<Rightarrow> app \<Rightarrow> app" where
  "create_house_rows available s =
     fold (\<lambda>(hid, name) s. s\<lparr>house_vars := AList.update hid 0 (house_vars s),
                              house_qty := AList.update hid 1 (house_qty s)\<rparr>) available s"

definition refresh_houses :: "app \<Rightarrow> exn option \<times> app" where
  "refresh_houses s =
     (let s1 = s\<lparr>house_vars := [], house_qty := []\<rparr>
      in case fetch_all select_houses (db_manager s1) of
           Inl e \<Rightarrow> (Some e, s1)
         | Inr rows \<Rightarrow>
             (let s2 = s1\<lparr>all_houses := rows\<rparr>;
                  assigned = assigned_houses (db_manager s2) (date_picker s2);
                  available = available_houses rows assigned
              in (None, create_house_rows available s2)))"

text \<open>Two refreshes in a row, as several handlers end.\<close>

definition refresh_both :: "app \<Rightarrow> dialog list \<Rightarrow> result" where
  "refresh_both s shown =
     (case refresh_workers s of
        (Some e, s1) \<Rightarrow> (Some e, s1, shown)
      | (None, s1) \<Rightarrow> (case refresh_houses s1 of (r, s2) \<Rightarrow> (r, s2, shown)))"

text \<open>
  \<^verbatim>\<open>_on_worker_select\<close> and \<^verbatim>\<open>_unselect_worker\<close>; \<open>selection\<close> is the index the list box
  reports. An index outside the cache raises \<^verbatim>\<open>IndexError\<close>.
\<close>

definition on_worker_select :: "nat option \<Rightarrow> app \<Rightarrow> result" where
  "on_worker_select selection s =
     (case selection of
        None \<Rightarrow> (None, s, [])
      | Some i \<Rightarrow>
          if length (workers_cache s) \<le> i then (Some (Exception ''IndexError''), s, [])
          else (case refresh_houses
                       (clear_house_selections (s\<lparr>current_worker := Some (workers_cache s ! i)\<rparr>)) of
                  (r, s1) \<Rightarrow> (r, s1, [])))"

definition unselect_worker :: "app \<Rightarrow> result" where
  "unselect_worker s =
     (case refresh_houses (clear_house_selections (s\<lparr>current_worker := None\<rparr>)) of
        (r, s1) \<Rightarrow> (r, s1, []))"

text \<open>\<^verbatim>\<open>_add_worker\<close>; \<open>entered\<close> is the result of the dialog (\<open>None\<close> when cancelled).\<close>

definition add_worker :: "(string \<times> string) option \<Rightarrow> app \<Rightarrow> result" where
  "add_worker entered s =
     (case entered of
        None \<Rightarrow> (None, s, [])
      | Some (name, email) \<Rightarrow>
          (case execute (insert_worker name email) (db_manager s) of
             Inl e \<Rightarrow> (Some e, s, [])
           | Inr d \<Rightarrow> (case refresh_workers (s\<lparr>db_manager := d\<rparr>) of (r, s1) \<Rightarrow> (r, s1, []))))"

definition edit_worker :: "nat option \<Rightarrow> (string \<times> string) option \<Rightarrow> app \<Rightarrow> result" where
  "edit_worker selection entered s =
     (case selection of
        None \<Rightarrow> (None, s, [showerror ''Please select a worker to edit.''])
      | Some i \<Rightarrow>
          if length (workers_cache s) \<le> i then (Some (Exception ''IndexError''), s, [])
          else (case entered of
                  None \<Rightarrow> (None, s, [])
                | Some (name, email) \<Rightarrow>
                    (case execute (update_worker name email (fst (workers_cache s ! i)))
                            (db_manager s) of
                       Inl e \<Rightarrow> (Some e, s, [])
                     | Inr d \<Rightarrow>
                         (case refresh_workers (s\<lparr>db_manager := d\<rparr>) of (r, s1) \<Rightarrow> (r, s1, [])))))"

text \<open>\<^verbatim>\<open>_delete_worker\<close>; \<open>confirmed\<close> is the answer to \<^verbatim>\<open>askyesno\<close>.\<close>

definition delete_worker :: "nat option \<Rightarrow> bool \<Rightarrow> app \<Rightarrow> result" where
  "delete_worker selection confirmed s =
     (case selection of
        None \<Rightarrow> (None, s, [showerror ''Please select a worker to delete.''])
      | Some i \<Rightarrow>
          if length (workers_cache s) \<le> i then (Some (Exception ''IndexError''), s, [])
          else if \<not> confirmed then (None, s, [])
          else (case execute (delete_worker_row (fst (workers_cache s ! i))) (db_manager s) of
                  Inl e \<Rightarrow> (Some e, s, [])
                | Inr d \<Rightarrow> refresh_both (s\<lparr>db_manager := d, current_worker := None\<rparr>) []))"

text \<open>
  \<^verbatim>\<open>_add_house\<close>; \<open>entered\<close> is the result of the dialog, a name; \<^verbatim>\<open>if dialog.result\<close>
  is false for \<open>None\<close> and for the empty name.
\<close>

definition add_house :: "string option \<Rightarrow> app \<Rightarrow> result" where
  "add_house entered s =
     (case entered of
        None \<Rightarrow> (None, s, [])
      | Some name \<Rightarrow>
          if name = [] then (None, s, [])
          else (case execute (insert_house name) (db_manager s) of
                  Inl e \<Rightarrow> (Some e, s, [])
                | Inr d \<Rightarrow>
                    (case refresh_houses (s\<lparr>db_manager := d\<rparr>) of (r, s1) \<Rightarrow> (r, s1, []))))"

text \<open>
  \<^verbatim>\<open>_edit_house\<close> and \<^verbatim>\<open>_delete_house\<close>: the houses are listed in a dialog; \<open>pick\<close> is
  the user's choice from the list shown (\<open>None\<close> when the dialog is closed).
\<close>

definition edit_house :: "(house list \<Rightarrow> house option) \<Rightarrow> string option \<Rightarrow> app \<Rightarrow> result" where
  "edit_house pick entered s =
     (case fetch_all select_houses (db_manager s) of
        Inl e \<Rightarrow> (Some e, s, [])
      | Inr hs \<Rightarrow>
          if hs = [] then (None, s, [showinfo ''No houses found to edit.''])
          else (case pick hs of
                  None \<Rightarrow> (None, s, [])
                | Some house_data \<Rightarrow>
                    (case entered of
                       None \<Rightarrow> (None, s, [])
                     | Some name \<Rightarrow>
                         if name = [] then (None, s, [])
                         else (case execute (update_house name (fst house_data)) (db_manager s) of
                                 Inl e \<Rightarrow> (Some e, s, [])
                               | Inr d \<Rightarrow>
                                   (case refresh_houses (s\<lparr>db_manager := d\<rparr>) of
                                      (r, s1) \<Rightarrow> (r, s1, []))))))"

definition delete_house :: "(house list \<Rightarrow> house option) \<Rightarrow> bool \<Rightarrow> app \<Rightarrow> result" where
  "delete_house pick confirmed s =
     (case fetch_all select_houses (db_manager s) of
        Inl e \<Rightarrow> (Some e, s, [])
      | Inr hs \<Rightarrow>
          if hs = [] then (None, s, [showinfo ''No houses found to delete.''])
          else (case pick hs of
                  None \<Rightarrow> (None, s, [])
                | Some house_data \<Rightarrow>
                    if \<not> confirmed then (None, s, [])
                    else (case execute (delete_house_row (fst house_data)) (db_manager s) of
                            Inl e \<Rightarrow> (Some e, s, [])
                          | Inr d \<Rightarrow>
                              (case refresh_houses (s\<lparr>db_manager := d\<rparr>) of
                                 (r, s1) \<Rightarrow> (r, s1, [])))))"

text \<open>
  What the user does to the widgets: ticking a check box, typing a quantity, saving a
  comment (\<^verbatim>\<open>save_comment\<close>), picking a date (which refreshes the house list).
\<close>

definition set_house_var :: "int \<Rightarrow> int \<Rightarrow> app \<Rightarrow> app" where
  "set_house_var hid v s =
     (if hid \<in> fst ` set (house_vars s) then s\<lparr>house_vars := AList.update hid v (house_vars s)\<rparr>
      else s)"

definition set_house_qty :: "int \<Rightarrow> int \<Rightarrow> app \<Rightarrow> app" where
  "set_house_qty hid q s =
     (if hid \<in> fst ` set (house_qty s) then s\<lparr>house_qty := AList.update hid q (house_qty s)\<rparr>
      else s)"

definition save_comment :: "int \<Rightarrow> string \<Rightarrow> app \<Rightarrow> app" where
  "save_comment hid comment s = s\<lparr>house_notes := AList.update hid comment (house_notes s)\<rparr>"

definition select_date :: "date \<Rightarrow> app \<Rightarrow> result" where
  "select_date dt s =
     (case date_picker s of
        None \<Rightarrow> (None, s, [])
      | Some _ \<Rightarrow> (case refresh_houses (s\<lparr>date_picker := Some dt\<rparr>) of (r, s1) \<Rightarrow> (r, s1, [])))"

subsection \<open>TaskMeisterApp: sending assignments\<close>

text \<open>
  Lines 801 to 806: the selected houses, in the order of \<open>house_vars\<close>, each with its
  quantity and its comment (\<open>''''\<close> when none was saved). A missing quantity box is a
  \<^verbatim>\<open>KeyError\<close>.
\<close>

fun collect_selected ::
  "(int \<times> int) list \<Rightarrow> (int \<times> int) list \<Rightarrow> (int \<times> string) list \<Rightarrow> exn + (int \<times> int \<times> string) list" where
  "collect_selected [] qtys notes = Inr []"
| "collect_selected ((hid, v) # vars) qtys notes =
     (if v \<noteq> 0 then
        (case map_of qtys hid of
           None \<Rightarrow> Inl (Exception ''KeyError'')
         | Some qty \<Rightarrow>
             (case collect_selected vars qtys notes of
                Inl e \<Rightarrow> Inl e
              | Inr selected \<Rightarrow>
                  Inr ((hid, qty, (case map_of notes hid of None \<Rightarrow> [] | Some nt \<Rightarrow> nt)) # selected)))
      else collect_selected vars qtys notes)"

text \<open>\<^verbatim>\<open>_prepare_assignment_data\<close>: the house names are looked up in \<open>all_houses\<close>.\<close>

definition prepare_assignment_data ::
  "house list \<Rightarrow> (int \<times> int \<times> string) list \<Rightarrow> email_assignment list" where
  "prepare_assignment_data houses_seen selected_houses =
     map (\<lambda>(hid, qty, nt).
            ((case map_of (rev houses_seen) hid of
                None \<Rightarrow> ''House-'' @ str_int hid
              | Some name \<Rightarrow> name), qty, nt)) selected_houses"

text \<open>
  \<^verbatim>\<open>_save_assignments_to_db\<close>: one \<^verbatim>\<open>execute\<close> per selected house; the first error ends
  the loop and leaves the rows inserted so far. \<open>k\<close> counts the inserts done.
\<close>

fun save_assignments_from ::
  "env \<Rightarrow> nat \<Rightarrow> int \<Rightarrow> (int \<times> int \<times> string) list \<Rightarrow> string \<Rightarrow> database \<Rightarrow> exn option \<times> database" where
  "save_assignments_from E k wid [] date_str d = (None, d)"
| "save_assignments_from E k wid ((hid, qty, nt) # rest) date_str d =
     (case execute (insert_assignment (clock E k) wid hid qty nt date_str) d of
        Inl e \<Rightarrow> (Some e, d)
      | Inr d1 \<Rightarrow> save_assignments_from E (Suc k) wid rest date_str d1)"

definition save_assignments_to_db ::
  "env \<Rightarrow> int \<Rightarrow> (int \<times> int \<times> string) list \<Rightarrow> string \<Rightarrow> database \<Rightarrow> exn option \<times> database" where
  "save_assignments_to_db E wid selected_houses date_str d =
     save_assignments_from E 0 wid selected_houses date_str d"

definition failed_to_send :: "exn \<Rightarrow> dialog" where
  "failed_to_send e = showerror (''Failed to send assignments: '' @ str_exn e)"

definition sent_successfully :: "string \<Rightarrow> string \<Rightarrow> string \<Rightarrow> dialog" where
  "sent_successfully worker_name worker_email date_formatted =
     showinfo (''Assignments sent successfully!'' @ newline @
               ''Recipient: '' @ worker_name @ '' <'' @ worker_email @ ''>'' @ newline @
               ''Date: '' @ date_formatted)"

text \<open>
  \<^verbatim>\<open>_send_assignments\<close>. The three checks return after an error box. The \<^verbatim>\<open>try\<close> block
  saves, sends, reports, clears and refreshes; any exception in it is shown in an error
  box and goes no further.
\<close>

definition send_assignments :: "env \<Rightarrow> app \<Rightarrow> result" where
  "send_assignments E s =
     (case current_worker s of
        None \<Rightarrow> (None, s, [showerror ''Please select a worker.''])
      | Some (wid, worker_name, worker_email) \<Rightarrow>
          (case collect_selected (house_vars s) (house_qty s) (house_notes s) of
             Inl e \<Rightarrow> (Some e, s, [])
           | Inr selected_houses \<Rightarrow>
               if selected_houses = [] then
                 (None, s, [showerror ''Please select at least one house.''])
               else
                 (case date_picker s of
                    None \<Rightarrow>
                      (None, s,
                       [showerror ''Date picker not available. Please install tkcalendar.''])
                  | Some dt \<Rightarrow>
                      (let date_str = strftime_Ymd dt;
                           date_formatted = strftime_dmY dt;
                           assignments = prepare_assignment_data (all_houses s) selected_houses
                       in case save_assignments_to_db E wid selected_houses date_str (db_manager s) of
                            (Some e, d) \<Rightarrow> (None, s\<lparr>db_manager := d\<rparr>, [failed_to_send e])
                          | (None, d) \<Rightarrow>
                              (case send_assignment_email E worker_email worker_name assignments
                                      date_formatted of
                                 Some e \<Rightarrow> (None, s\<lparr>db_manager := d\<rparr>, [failed_to_send e])
                               | None \<Rightarrow>
                                   (case refresh_houses
                                           (clear_house_selections (s\<lparr>db_manager := d\<rparr>)) of
                                      (Some e, s1) \<Rightarrow>
                                        (None, s1,
                                         [sent_successfully worker_name worker_email date_formatted,
                                          failed_to_send e])
                                    | (None, s1) \<Rightarrow>
                                        (None, s1,
                                         [sent_successfully worker_name worker_email
                                            date_formatted])))))))"

subsection \<open>TaskMeisterApp: history\<close>

text \<open>
  The seven values shown for a row and written to the file: the names, the quantity, the
  note (\<open>''''\<close> for \<open>NULL\<close>), the two dates formatted, or as stored when they do not
  parse, and the status.
\<close>

type_synonym history_values = "string \<times> string \<times> int option \<times> string \<times> string \<times> string \<times> string"

definition or_empty :: "string option \<Rightarrow> string" where
  "or_empty v = (case v of None \<Rightarrow> [] | Some t \<Rightarrow> t)"

definition format_or_keep :: "(string \<Rightarrow> string option) \<Rightarrow> string option \<Rightarrow> string" where
  "format_or_keep conv v =
     (case v of
        None \<Rightarrow> or_empty v
      | Some t \<Rightarrow> (case conv t of None \<Rightarrow> or_empty v | Some formatted \<Rightarrow> formatted))"

definition status_of :: "int option \<Rightarrow> string" where
  "status_of flag = (if flag \<noteq> None \<and> flag \<noteq> Some 0 then ''Sent'' else ''Pending'')"

definition row_values :: "pylib \<Rightarrow> history_row \<Rightarrow> history_values" where
  "row_values L r =
     (case r of (worker_name, house_name, qty, nt, adate, dassigned, flag) \<Rightarrow>
        (worker_name, house_name, qty, or_empty nt,
         format_or_keep (reformat_date L) adate,
         format_or_keep (reformat_timestamp L) dassigned,
         status_of flag))"

text \<open>\<^verbatim>\<open>_load_history_data\<close>: the rows put into the tree view.\<close>

definition load_history_data :: "pylib \<Rightarrow> database \<Rightarrow> exn + history_values list" where
  "load_history_data L d =
     (case fetch_all select_history d of
        Inl e \<Rightarrow> Inl e
      | Inr rows \<Rightarrow> Inr (map (row_values L) rows))"

text \<open>The condition of \<^verbatim>\<open>_apply_history_filter\<close>, \<open>filter_text\<close> already in lower case.\<close>

definition row_matches :: "pylib \<Rightarrow> string \<Rightarrow> history_row \<Rightarrow> bool" where
  "row_matches L filter_text r =
     (case r of (worker_name, house_name, qty, nt, adate, dassigned, flag) \<Rightarrow>
        str_in filter_text (str_lower L worker_name) \<or>
        str_in filter_text (str_lower L house_name) \<or>
        str_in filter_text (str_lower L (or_empty nt)))"

text \<open>\<^verbatim>\<open>_apply_history_filter\<close>: the rows in the tree view afterwards.\<close>

definition apply_history_filter :: "pylib \<Rightarrow> database \<Rightarrow> string \<Rightarrow> exn + history_values list" where
  "apply_history_filter L d filter_text =
     (let lowered = str_lower L filter_text
      in case fetch_all select_history d of
           Inl e \<Rightarrow> Inl e
         | Inr rows \<Rightarrow> Inr (map (row_values L) (filter (row_matches L lowered) rows)))"

text \<open>
  \<^verbatim>\<open>_export_history\<close>. The file is the list of the rows given to \<^verbatim>\<open>writer.writerow\<close>, each
  the list of its fields as \<^verbatim>\<open>csv\<close> writes them (\<^verbatim>\<open>str\<close> of a number, nothing for
  \<open>None\<close>). \<open>filename\<close> is what the save dialog returns, empty when cancelled.
\<close>

definition csv_header :: "string list" where
  "csv_header = [''Worker'', ''House'', ''Quantity'', ''Note'', ''Assignment Date'', ''Record Date'',
                 ''Status'']"

definition csv_fields :: "history_values \<Rightarrow> string list" where
  "csv_fields v =
     (case v of (worker_name, house_name, qty, nt, assignment_formatted, assigned_formatted, status) \<Rightarrow>
        [worker_name, house_name, (case qty of None \<Rightarrow> [] | Some n \<Rightarrow> str_int n), nt,
         assignment_formatted, assigned_formatted, status])"

definition export_history :: "pylib \<Rightarrow> database \<Rightarrow> string \<Rightarrow> string list list option \<times> dialog list" where
  "export_history L d filename =
     (if filename = [] then (None, [])
      else (case fetch_all select_history d of
              Inl e \<Rightarrow> (None, [showerror (''Export failed: '' @ str_exn e)])
            | Inr rows \<Rightarrow>
                (Some (csv_header # map (\<lambda>r. csv_fields (row_values L r)) rows),
                 [showinfo (''Data exported successfully to:'' @ newline @ filename)])))"

subsection \<open>TaskMeisterApp: every handler as one step\<close>

datatype action =
    OnWorkerSelect "nat option"
  | UnselectWorker
  | AddWorker "(string \<times> string) option"
  | EditWorker "nat option" "(string \<times> string) option"
  | DeleteWorker "nat option" bool
  | AddHouse "string option"
  | EditHouse "house list \<Rightarrow> house option" "string option"
  | DeleteHouse "house list \<Rightarrow> house option" bool
  | SetHouseVar int int
  | SetHouseQty int int
  | SaveComment int string
  | SelectDate date
  | SendAssignments
  | ShowHistory
  | ApplyHistoryFilter string
  | ExportHistory string

text \<open>
  The history handlers read the store and leave the state as it is; their own output is
  given by \<open>load_history_data\<close>, \<open>apply_history_filter\<close> and \<open>export_history\<close>.
\<close>

fun step :: "pylib \<Rightarrow> env \<Rightarrow> action \<Rightarrow> app \<Rightarrow> result" where
  "step L E (OnWorkerSelect selection) s = on_worker_select selection s"
| "step L E UnselectWorker s = unselect_worker s"
| "step L E (AddWorker entered) s = add_worker entered s"
| "step L E (EditWorker selection entered) s = edit_worker selection entered s"
| "step L E (DeleteWorker selection confirmed) s = delete_worker selection confirmed s"
| "step L E (AddHouse entered) s = add_house entered s"
| "step L E (EditHouse pick entered) s = edit_house pick entered s"
| "step L E (DeleteHouse pick confirmed) s = delete_house pick confirmed s"
| "step L E (SetHouseVar hid v) s = (None, set_house_var hid v s, [])"
| "step L E (SetHouseQty hid q) s = (None, set_house_qty hid q s, [])"
| "step L E (SaveComment hid comment) s = (None, save_comment hid comment s, [])"
| "step L E (SelectDate dt) s = select_date dt s"
| "step L E SendAssignments s = send_assignments E s"
| "step L E ShowHistory s =
     (case load_history_data L (db_manager s) of Inl e \<Rightarrow> (Some e, s, []) | Inr _ \<Rightarrow> (None, s, []))"
| "step L E (ApplyHistoryFilter filter_text) s =
     (case apply_history_filter L (db_manager s) filter_text of
        Inl e \<Rightarrow> (Some e, s, [])
      | Inr _ \<Rightarrow> (None, s, []))"
| "step L E (ExportHistory filename) s = (None, s, snd (export_history L (db_manager s) filename))"


subsection \<open>The wording of the specification\<close>

text \<open>
  Two definitions that follow the words of the specification, to be compared with the
  code: the line of a house in the notification, and a case-insensitive substring.
\<close>

definition spec_house_line :: "email_assignment \<Rightarrow> string" where
  "spec_house_line assignment =
     (case assignment of (house_name, qty, nt) \<Rightarrow>
        ''- '' @ house_name @ '' '' @ arrow @ '' '' @ str_int qty @ '' units'' @
        (if nt \<noteq> [] then '' | Note: '' @ nt else []))"

definition ci_substring :: "pylib \<Rightarrow> string \<Rightarrow> string \<Rightarrow> bool" where
  "ci_substring L needle hay = (\<exists>p q. str_lower L hay = p @ str_lower L needle @ q)"

subsection \<open>Notions the properties are stated with\<close>

text \<open>The eight columns of \<^verbatim>\<open>assignment_history\<close> after the migration.\<close>

definition all_columns :: "string list" where
  "all_columns = base_columns @ [''assignment_date'', ''email_sent'']"

text \<open>
  A store is ready when the three tables exist and \<^verbatim>\<open>assignment_history\<close> has its eight
  columns: what \<open>initialize_database\<close> leaves of a new file or of a file of an earlier
  version of the application.
\<close>

definition ready :: "database \<Rightarrow> bool" where
  "ready d =
     (workers d \<noteq> None \<and> houses d \<noteq> None \<and>
      (case assignment_history d of
         None \<Rightarrow> False
       | Some (cols, rs) \<Rightarrow> list_all (has_column cols) all_columns))"

text \<open>The rows of \<^verbatim>\<open>assignment_history\<close> (none when the table is missing).\<close>

definition history_rows :: "database \<Rightarrow> assignment list" where
  "history_rows d = (case assignment_history d of None \<Rightarrow> [] | Some t \<Rightarrow> snd t)"

text \<open>The six columns the \<^verbatim>\<open>INSERT\<close> of \<^verbatim>\<open>_save_assignments_to_db\<close> names.\<close>

definition inserted_columns ::
  "assignment \<Rightarrow> int option \<times> int option \<times> int option \<times> string option \<times> string option \<times> int option" where
  "inserted_columns a =
     (worker_id a, house_id a, quantity a, a_note a, assignment_date a, email_sent a)"

text \<open>
  The six columns a row has had since \<^verbatim>\<open>_create_tables\<close>; two stores have the same
  originals when their rows agree on them, row by row; a statement keeps the originals
  when its result always has those of the store it ran on, a connection when both the
  file and what the connection sees have those of a given store.
\<close>

definition original_columns ::
  "assignment \<Rightarrow> int \<times> int option \<times> int option \<times> int option \<times> string option \<times> string option" where
  "original_columns a = (a_id a, worker_id a, house_id a, quantity a, a_note a, date_assigned a)"

definition same_originals :: "database \<Rightarrow> database \<Rightarrow> bool" where
  "same_originals d d' =
     (map original_columns (history_rows d') = map original_columns (history_rows d))"

definition keeps_originals :: "(database \<Rightarrow> exn + database) \<Rightarrow> bool" where
  "keeps_originals stmt = (\<forall>d d'. stmt d = Inr d' \<longrightarrow> same_originals d d')"

definition conn_keeps :: "database \<Rightarrow> connection \<Rightarrow> bool" where
  "conn_keeps d c = (same_originals d (committed c) \<and> same_originals d (working c))"

section \<open>Example data\<close>

text \<open>
  Concrete stores and library functions on which the theorems are run. \<open>example_lib\<close>
  takes \<^verbatim>\<open>DATE\<close> of a timestamp to its first ten characters, lower-cases ASCII letters
  and reformats text of the length of a date or of a timestamp.
\<close>

definition example_lib :: pylib where
  "example_lib = \<lparr>sqlite_DATE = (\<lambda>t. Some (take 10 t)), str_lower = sql_lower,
     reformat_date = (\<lambda>s. if length s = 10 then
        Some (drop 8 s @ ''.'' @ take 2 (drop 5 s) @ ''.'' @ take 4 s) else None),
     reformat_timestamp = (\<lambda>s. if length s = 19 then
        Some (take 2 (drop 8 s) @ ''.'' @ take 2 (drop 5 s) @ ''.'' @ take 4 s @ '' '' @
              take 5 (drop 11 s)) else None)\<rparr>"

definition legacy_row :: assignment where
  "legacy_row = \<lparr>a_id = 1, worker_id = Some 1, house_id = Some 1, quantity = Some 2,
     a_note = Some ''late ok'', date_assigned = Some ''2024-04-30 18:05:00'',
     assignment_date = None, email_sent = None\<rparr>"

definition legacy_db :: database where
  "legacy_db = \<lparr>workers = Some [(1, ''Ana'', ''ana@x.com'')], houses = Some [(1, ''A'')],
     assignment_history = Some (base_columns, [legacy_row]),
     sqlite_sequence = [(''workers'', 1), (''houses'', 1), (''assignment_history'', 1)]\<rparr>"

definition empty_db :: database where
  "empty_db = \<lparr>workers = None, houses = None, assignment_history = None, sqlite_sequence = []\<rparr>"

definition fresh_db :: database where
  "fresh_db = \<lparr>workers = Some [], houses = Some [],
     assignment_history = Some (all_columns, []), sqlite_sequence = []\<rparr>"

definition migrated_legacy_db :: database where
  "migrated_legacy_db = legacy_db\<lparr>assignment_history :=
      Some (base_columns @ [''assignment_date'', ''email_sent''],
            [legacy_row\<lparr>assignment_date := Some ''2024-04-30'', email_sent := Some 1\<rparr>])\<rparr>"





definition sent_row :: assignment where
  "sent_row = \<lparr>a_id = 1, worker_id = Some 1, house_id = Some 1, quantity = Some 1,
     a_note = Some [], date_assigned = Some ''2024-04-30 18:05:00'',
     assignment_date = Some ''2024-05-01'', email_sent = Some 1\<rparr>"

definition pending_row :: assignment where
  "pending_row = \<lparr>a_id = 2, worker_id = Some 1, house_id = Some 2, quantity = Some 2,
     a_note = Some ''late ok'', date_assigned = Some ''2024-04-30 18:05:01'',
     assignment_date = Some ''2024-05-01'', email_sent = Some 0\<rparr>"

definition history_db :: database where
  "history_db = \<lparr>workers = Some [(1, ''Ana'', ''ana@x.com'')],
     houses = Some [(2, ''Southfield''), (1, ''Northgate'')],
     assignment_history = Some (all_columns, [sent_row, pending_row]),
     sqlite_sequence = [(''workers'', 1), (''houses'', 2), (''assignment_history'', 2)]\<rparr>"

definition northgate_values :: history_values where
  "northgate_values = (''Ana'', ''Northgate'', Some 1, [], ''01.05.2024'', ''30.04.2024 18:05'', ''Sent'')"

definition southfield_values :: history_values where
  "southfield_values =
     (''Ana'', ''Southfield'', Some 2, ''late ok'', ''01.05.2024'', ''30.04.2024 18:05'', ''Pending'')"

text \<open>
  The scenario of the specification: the worker Ana, the houses A and B, both ticked, for
  the first of May 2024; an SMTP session that delivers and one that raises.
\<close>

definition ready_db :: database where
  "ready_db = \<lparr>workers = Some [(1, ''Ana'', ''ana@x.com'')],
     houses = Some [(1, ''A''), (2, ''B'')],
     assignment_history = Some (all_columns, []),
     sqlite_sequence = [(''workers'', 1), (''houses'', 2)]\<rparr>"

definition example_app :: app where
  "example_app = \<lparr>db_manager = ready_db,
     current_worker = Some (1, ''Ana'', ''ana@x.com''),
     workers_cache = [(1, ''Ana'', ''ana@x.com'')],
     all_houses = [(1, ''A''), (2, ''B'')],
     house_vars = [(1, 1), (2, 1)],
     house_qty = [(1, 1), (2, 2)],
     house_notes = [(2, ''late ok'')],
     date_picker = Some (2024, 5, 1)\<rparr>"

definition zero_quantity_app :: app where
  "zero_quantity_app = example_app\<lparr>house_vars := [(1, 1), (2, 0)], house_qty := [(1, 0), (2, 2)]\<rparr>"

definition history_app :: app where
  "history_app = example_app\<lparr>db_manager := history_db,
     all_houses := [(1, ''Northgate''), (2, ''Southfield'')]\<rparr>"

definition delivering :: env where
  "delivering = \<lparr>clock = (\<lambda>k. ''2024-04-30 18:05:00''), smtp_send = (\<lambda>to_email subject body. None)\<rparr>"

definition failing :: env where
  "failing = \<lparr>clock = (\<lambda>k. ''2024-04-30 18:05:00''),
     smtp_send = (\<lambda>to_email subject body. Some (Exception ''Connection refused''))\<rparr>"

section \<open>Properties\<close>

subsection \<open>What the statements of the schema store do\<close>

lemma create_tables_migrated:
  "migrated d \<Longrightarrow> create_tables (connect d) = (None, connect d, [])"
  by (auto simp: migrated_def create_tables_def connect_def execute_ddl_def create_workers_def
      create_houses_def create_assignment_history_def split: option.splits)

lemma migrate_migrated:
  "migrated d \<Longrightarrow> migrate_database L (connect d) = (None, connect d, [])"
  by (auto simp: migrated_def migrate_database_def table_info_def connect_def split: option.splits)

lemma create_workers_Inr:
  "\<exists>d'. create_workers d = Inr d' \<and> workers d' \<noteq> None \<and> houses d' = houses d \<and>
     assignment_history d' = assignment_history d"
  by (cases "workers d") (simp_all add: create_workers_def)

lemma create_houses_Inr:
  "\<exists>d'. create_houses d = Inr d' \<and> houses d' \<noteq> None \<and> workers d' = workers d \<and>
     assignment_history d' = assignment_history d"
  by (cases "houses d") (simp_all add: create_houses_def)

lemma create_assignment_history_Inr:
  "\<exists>d'. create_assignment_history d = Inr d' \<and> assignment_history d' \<noteq> None \<and>
     workers d' = workers d \<and> houses d' = houses d"
  by (cases "assignment_history d") (simp_all add: create_assignment_history_def)

lemma execute_ddl_working:
  "stmt (working c) = Inr d \<Longrightarrow> \<exists>c'. execute_ddl stmt c = Inr c' \<and> working c' = d"
  by (simp add: execute_ddl_def)

lemma create_tables_result:
  assumes "create_tables c = (r, c', out)"
  shows "r = None \<and> out = [] \<and> workers (working c') \<noteq> None \<and> houses (working c') \<noteq> None \<and>
     assignment_history (working c') \<noteq> None"
proof -
  obtain d1 where d1: "create_workers (working c) = Inr d1" "workers d1 \<noteq> None"
    using create_workers_Inr by blast
  then obtain c1 where c1: "execute_ddl create_workers c = Inr c1" "working c1 = d1"
    using execute_ddl_working by blast
  obtain d2 where d2: "create_houses d1 = Inr d2" "houses d2 \<noteq> None" "workers d2 = workers d1"
    using create_houses_Inr by blast
  with c1 obtain c2 where c2: "execute_ddl create_houses c1 = Inr c2" "working c2 = d2"
    using execute_ddl_working by metis
  obtain d3 where d3: "create_assignment_history d2 = Inr d3" "assignment_history d3 \<noteq> None"
      "workers d3 = workers d2" "houses d3 = houses d2"
    using create_assignment_history_Inr by blast
  with c2 obtain c3 where c3: "execute_ddl create_assignment_history c2 = Inr c3" "working c3 = d3"
    using execute_ddl_working by metis
  from assms c1 c2 c3 have "r = None" "out = []" "c' = c3"
    by (simp_all add: create_tables_def)
  with d1 d2 d3 c3 show ?thesis by simp
qed

lemma execute_ddl_Inr:
  "execute_ddl stmt c = Inr c' \<Longrightarrow> stmt (working c) = Inr (working c')"
  by (cases "stmt (working c)") (auto simp: execute_ddl_def split: if_splits)

lemma execute_dml_Inr:
  "execute_dml stmt c = Inr c' \<Longrightarrow> stmt (working c) = Inr (working c')"
  by (cases "stmt (working c)") (auto simp: execute_dml_def)

lemma alter_add_column_Inr:
  assumes "alter_add_column n f d = Inr d'"
  shows "workers d' = workers d \<and> houses d' = houses d \<and>
     (\<exists>cols rs. assignment_history d = Some (cols, rs) \<and>
        assignment_history d' = Some (cols @ [n], map f rs))"
proof (cases "assignment_history d")
  case None
  with assms show ?thesis by (simp add: alter_add_column_def)
next
  case (Some t)
  obtain cols rs where t: "t = (cols, rs)" by (cases t)
  from assms Some t have "d' = d\<lparr>assignment_history := Some (cols @ [n], map f rs)\<rparr>"
    by (simp add: alter_add_column_def split: if_splits)
  with Some t show ?thesis by simp
qed

lemma backfill_assignment_date_Inr:
  assumes "backfill_assignment_date L d = Inr d'"
  shows "workers d' = workers d \<and> houses d' = houses d \<and>
     (\<exists>cols rs rs'. assignment_history d = Some (cols, rs) \<and>
        assignment_history d' = Some (cols, rs') \<and> length rs' = length rs)"
proof (cases "assignment_history d")
  case None
  with assms show ?thesis by (simp add: backfill_assignment_date_def)
next
  case (Some t)
  obtain cols rs where t: "t = (cols, rs)" by (cases t)
  from assms Some t obtain rs' where "d' = d\<lparr>assignment_history := Some (cols, rs')\<rparr>"
    and "length rs' = length rs"
    by (auto simp: backfill_assignment_date_def split: if_splits)
  with Some t show ?thesis by simp
qed

lemma backfill_email_sent_Inr:
  assumes "backfill_email_sent d = Inr d'"
  shows "workers d' = workers d \<and> houses d' = houses d \<and>
     (\<exists>cols rs rs'. assignment_history d = Some (cols, rs) \<and>
        assignment_history d' = Some (cols, rs') \<and> length rs' = length rs)"
proof (cases "assignment_history d")
  case None
  with assms show ?thesis by (simp add: backfill_email_sent_def)
next
  case (Some t)
  obtain cols rs where t: "t = (cols, rs)" by (cases t)
  from assms Some t obtain rs' where "d' = d\<lparr>assignment_history := Some (cols, rs')\<rparr>"
    and "length rs' = length rs"
    by (auto simp: backfill_email_sent_def split: if_splits)
  with Some t show ?thesis by simp
qed

lemma add_assignment_date_result:
  assumes "add_assignment_date L c = (None, c', out)"
  shows "workers (working c') = workers (working c) \<and> houses (working c') = houses (working c) \<and>
     (\<exists>cols rs rs'. assignment_history (working c) = Some (cols, rs) \<and>
        assignment_history (working c') = Some (cols @ [''assignment_date''], rs') \<and>
        length rs' = length rs)"
proof -
  from assms obtain c1 where
    1: "execute_ddl (alter_add_column ''assignment_date'' (\<lambda>a. a\<lparr>assignment_date := None\<rparr>)) c = Inr c1"
    and 2: "execute_dml (backfill_assignment_date L) c1 = Inr c'"
    by (auto simp: add_assignment_date_def split: sum.splits)
  from alter_add_column_Inr [OF execute_ddl_Inr [OF 1]]
    backfill_assignment_date_Inr [OF execute_dml_Inr [OF 2]]
  show ?thesis by auto
qed

lemma add_email_sent_result:
  assumes "add_email_sent c = (None, c', out)"
  shows "workers (working c') = workers (working c) \<and> houses (working c') = houses (working c) \<and>
     (\<exists>cols rs rs'. assignment_history (working c) = Some (cols, rs) \<and>
        assignment_history (working c') = Some (cols @ [''email_sent''], rs') \<and>
        length rs' = length rs)"
proof -
  from assms obtain c1 where
    1: "execute_ddl (alter_add_column ''email_sent'' (\<lambda>a. a\<lparr>email_sent := Some 1\<rparr>)) c = Inr c1"
    and 2: "execute_dml backfill_email_sent c1 = Inr c'"
    by (auto simp: add_email_sent_def split: sum.splits)
  from alter_add_column_Inr [OF execute_ddl_Inr [OF 1]]
    backfill_email_sent_Inr [OF execute_dml_Inr [OF 2]]
  show ?thesis by auto
qed

lemma migrate_result:
  assumes "migrate_database L c = (None, c', out)"
    and "workers (working c) \<noteq> None" "houses (working c) \<noteq> None"
    and "assignment_history (working c) \<noteq> None"
  shows "migrated (working c')"
  using assms
  by (auto simp: migrate_database_def table_info_def migrated_def Let_def
      split: option.splits if_splits prod.splits
      dest!: add_assignment_date_result add_email_sent_result)

lemma add_assignment_date_output:
  "add_assignment_date L c = (r, c', out) \<Longrightarrow> set out \<subseteq> {''Added assignment_date column.''}"
  by (auto simp: add_assignment_date_def split: sum.splits)

lemma add_email_sent_output:
  "add_email_sent c = (r, c', out) \<Longrightarrow> set out \<subseteq> {''Added email_sent column.''}"
  by (auto simp: add_email_sent_def split: sum.splits)

lemma migrate_output:
  assumes "migrate_database L c = (r, c', out)"
  shows "set out \<subseteq> {''Added assignment_date column.'', ''Added email_sent column.''}"
proof -
  obtain r1 c1 out1 where a: "(if ''assignment_date'' \<notin> set (table_info c) then add_assignment_date L c else (None, c, [])) = (r1, c1, out1)"
    using prod_cases3 by blast
  then have o1: "set out1 \<subseteq> {''Added assignment_date column.''}"
    using add_assignment_date_output by (auto split: if_splits)
  show ?thesis
  proof (cases r1)
    case (Some e)
    with a assms have "out = out1" by (simp add: migrate_database_def Let_def)
    with o1 show ?thesis by auto
  next
    case None
    obtain r2 c2 out2 where b: "(if ''email_sent'' \<notin> set (table_info c) then add_email_sent c1 else (None, c1, [])) = (r2, c2, out2)"
      using prod_cases3 by blast
    then have o2: "set out2 \<subseteq> {''Added email_sent column.''}"
      using add_email_sent_output by (auto split: if_splits)
    from a b None assms have "out = out1 @ out2" by (simp add: migrate_database_def Let_def)
    with o1 o2 show ?thesis by auto
  qed
qed

lemma create_and_migrate_migrated:
  "migrated d \<Longrightarrow> create_and_migrate L (connect d) = (None, connect d, [])"
  by (simp add: create_and_migrate_def create_tables_migrated migrate_migrated)

lemma close_commit_connect: "close (commit (connect d)) = d"
  by (simp add: commit_def close_def connect_def)

lemma init_migrated:
  "migrated d \<Longrightarrow> initialize_database L d = (None, d, [''Database initialized successfully.''])"
  by (simp add: initialize_database_def create_and_migrate_migrated close_commit_connect)

lemma create_and_migrate_None:
  assumes "create_and_migrate L c = (None, c', out)"
  shows "migrated (working c')"
proof -
  obtain r0 c1 out1 where ct: "create_tables c = (r0, c1, out1)"
    by (cases "create_tables c") auto
  note ctr = create_tables_result [OF ct]
  obtain r1 c2 out2 where mg: "migrate_database L c1 = (r1, c2, out2)"
    by (cases "migrate_database L c1") auto
  from assms ct ctr mg have "r1 = None" "c' = c2"
    by (simp_all add: create_and_migrate_def)
  with ctr mg show ?thesis
    by (intro migrate_result [of L c1 c' out2]) auto
qed

lemma create_and_migrate_output:
  assumes "create_and_migrate L c = (r, c', out)"
  shows "set out \<subseteq> {''Added assignment_date column.'', ''Added email_sent column.''}"
proof -
  obtain r0 c1 out1 where ct: "create_tables c = (r0, c1, out1)"
    by (cases "create_tables c") auto
  note ctr = create_tables_result [OF ct]
  obtain r1 c2 out2 where mg: "migrate_database L c1 = (r1, c2, out2)"
    by (cases "migrate_database L c1") auto
  from assms ct ctr mg have "out = out2"
    by (simp add: create_and_migrate_def)
  with migrate_output [OF mg] show ?thesis by simp
qed

lemma init_success_migrated:
  assumes "initialize_database L d = (r, d', out)"
    and "''Database initialized successfully.'' \<in> set out"
  shows "migrated d'"
proof -
  obtain r1 c out1 where cm: "create_and_migrate L (connect d) = (r1, c, out1)"
    by (cases "create_and_migrate L (connect d)") auto
  from create_and_migrate_output [OF cm]
  have no: "''Database initialized successfully.'' \<notin> set out1" by auto
  show ?thesis
  proof (cases r1)
    case None
    with cm assms(1) have "d' = working c"
      by (simp add: initialize_database_def close_def commit_def)
    with create_and_migrate_None cm None show ?thesis by simp
  next
    case (Some e)
    with cm assms(1) no have "''Database initialized successfully.'' \<notin> set out"
      by (cases e) (auto simp: initialize_database_def)
    with assms(2) show ?thesis by simp
  qed
qed










subsection \<open>C4: the migration is idempotent\<close>

text \<open>
  Claim C4. Running \<open>initialize_database\<close> on an already migrated store is a no-op: it
  returns the same store and prints only the success line. Hence, whenever a run
  succeeds, a second run changes nothing: the store, its schema (tables and columns) and
  the row count of every table are the same after the second run as after the first.
\<close>

theorem initialize_database_idempotent:
  "(migrated d \<longrightarrow>
      initialize_database L d = (None, d, [''Database initialized successfully.''])) \<and>
   (''Database initialized successfully.'' \<in> set (snd (snd (initialize_database L d))) \<longrightarrow>
      (let d1 = fst (snd (initialize_database L d));
           d2 = fst (snd (initialize_database L d1))
       in d2 = d1 \<and> schema d2 = schema d1 \<and> row_counts d2 = row_counts d1 \<and>
          snd (snd (initialize_database L d1)) = [''Database initialized successfully.'']))"
proof (intro conjI impI)
  assume "migrated d"
  then show "initialize_database L d = (None, d, [''Database initialized successfully.''])"
    by (rule init_migrated)
next
  assume ok: "''Database initialized successfully.'' \<in> set (snd (snd (initialize_database L d)))"
  obtain r d1 out where i: "initialize_database L d = (r, d1, out)"
    by (cases "initialize_database L d") auto
  with ok have "migrated d1" by (auto intro: init_success_migrated)
  then have "initialize_database L d1 = (None, d1, [''Database initialized successfully.''])"
    by (rule init_migrated)
  with i show "let d1 = fst (snd (initialize_database L d));
           d2 = fst (snd (initialize_database L d1))
       in d2 = d1 \<and> schema d2 = schema d1 \<and> row_counts d2 = row_counts d1 \<and>
          snd (snd (initialize_database L d1)) = [''Database initialized successfully.'']"
    by simp
qed

theorem initialize_database_idempotent_witness:
  "migrated migrated_legacy_db \<and>
   initialize_database example_lib migrated_legacy_db =
     (None, migrated_legacy_db, [''Database initialized successfully.'']) \<and>
   initialize_database example_lib legacy_db =
     (None, migrated_legacy_db,
      [''Added assignment_date column.'', ''Added email_sent column.'',
       ''Database initialized successfully.'']) \<and>
   fst (snd (initialize_database example_lib migrated_legacy_db)) = migrated_legacy_db \<and>
   schema migrated_legacy_db =
     (True, True, Some (base_columns @ [''assignment_date'', ''email_sent''])) \<and>
   row_counts migrated_legacy_db = (Some 1, Some 1, Some 1) \<and>
   initialize_database example_lib empty_db =
     (None, fresh_db,
      [''Added assignment_date column.'', ''Added email_sent column.'',
       ''Database initialized successfully.'']) \<and>
   initialize_database example_lib fresh_db =
     (None, fresh_db, [''Database initialized successfully.''])"
proof -
  have m: "migrated migrated_legacy_db" by code_simp
  have r: "initialize_database example_lib legacy_db =
     (None, migrated_legacy_db,
      [''Added assignment_date column.'', ''Added email_sent column.'',
       ''Database initialized successfully.''])"
    by code_simp
  have e: "initialize_database example_lib empty_db =
     (None, fresh_db,
      [''Added assignment_date column.'', ''Added email_sent column.'',
       ''Database initialized successfully.''])"
    by code_simp
  have s: "schema migrated_legacy_db =
     (True, True, Some (base_columns @ [''assignment_date'', ''email_sent'']))"
    by code_simp
  have c: "row_counts migrated_legacy_db = (Some 1, Some 1, Some 1)" by code_simp
  from initialize_database_idempotent [where d = migrated_legacy_db and L = example_lib] m
  have 1: "initialize_database example_lib migrated_legacy_db =
     (None, migrated_legacy_db, [''Database initialized successfully.''])" by simp
  from initialize_database_idempotent [where d = legacy_db and L = example_lib] r
  have 2: "fst (snd (initialize_database example_lib migrated_legacy_db)) = migrated_legacy_db"
    by (simp add: Let_def)
  have f: "migrated fresh_db" by code_simp
  from initialize_database_idempotent [where d = fresh_db and L = example_lib] f
  have 3: "initialize_database example_lib fresh_db =
     (None, fresh_db, [''Database initialized successfully.''])" by simp
  from m 1 2 3 r e s c show ?thesis by simp
qed

subsection \<open>C8: errors of the schema store\<close>




subsection \<open>C7: the body of the notification\<close>

lemma email_lines_map: "email_lines acc as = acc @ map email_line as"
  by (induction as arbitrary: acc) simp_all

text \<open>
  Claim C7, as the spec states it, fails: the line of a house ends in \<^verbatim>\<open>bedding sets\<close>,
  not in \<^verbatim>\<open>units\<close>, so the line the specification describes occurs nowhere in the body.
\<close>

theorem create_email_body_units_counterexample:
  "email_line (''A'', 1, []) \<noteq> spec_house_line (''A'', 1, []) \<and>
   \<not> str_in (spec_house_line (''A'', 1, []))
        (create_email_body ''Ana'' [(''A'', 1, [])] ''01.05.2024'')"
  by code_simp

text \<open>
  Claim C7, amended. For every worker name, list of assignments and date text the body is
  the greeting line \<^verbatim>\<open>Hello <worker>,\<close>, an empty line, the date line \<^verbatim>\<open>Date: <date>\<close>,
  the line \<^verbatim>\<open>You have been assigned to the following houses:\<close>, an empty line, one line
  per assignment joined by newlines, an empty line and the closing line
  \<^verbatim>\<open>Good luck with your work!\<close>; the line of an assignment is
  \<^verbatim>\<open>- <house> (arrow) <quantity> bedding sets\<close>, followed by \<^verbatim>\<open> | Note: <note>\<close> exactly
  when the note is not empty.
\<close>

theorem create_email_body_template:
  "create_email_body worker_name assignments date_text =
     ''Hello '' @ worker_name @ '','' @ newline @ newline @
     ''Date: '' @ date_text @ newline @
     ''You have been assigned to the following houses:'' @ newline @ newline @
     join newline (map email_line assignments) @
     newline @ newline @ ''Good luck with your work!'' \<and>
   length (map email_line assignments) = length assignments \<and>
   email_line (house_name, qty, nt) =
     ''- '' @ house_name @ '' '' @ arrow @ '' '' @ str_int qty @ '' bedding sets'' @
     (if nt = [] then [] else '' | Note: '' @ nt)"
  by (simp add: create_email_body_def email_lines_map email_line_def Let_def)

theorem create_email_body_template_witness:
  "create_email_body ''Ana'' [(''A'', 1, []), (''B'', 2, ''late ok'')] ''01.05.2024'' =
     ''Hello Ana,'' @ newline @ newline @ ''Date: 01.05.2024'' @ newline @
     ''You have been assigned to the following houses:'' @ newline @ newline @
     ''- A '' @ arrow @ '' 1 bedding sets'' @ newline @
     ''- B '' @ arrow @ '' 2 bedding sets | Note: late ok'' @ newline @ newline @
     ''Good luck with your work!''"
proof -
  have "join newline (map email_line [(''A'', 1, []), (''B'', 2, ''late ok'')]) =
     ''- A '' @ arrow @ '' 1 bedding sets'' @ newline @
     ''- B '' @ arrow @ '' 2 bedding sets | Note: late ok''"
    by code_simp
  with create_email_body_template [of "''Ana''" "[(''A'', 1, []), (''B'', 2, ''late ok'')]" "''01.05.2024''"]
  show ?thesis by simp
qed

subsection \<open>C6: the history filter\<close>

lemma startswith_iff: "startswith hay needle \<longleftrightarrow> (\<exists>q. hay = needle @ q)"
  by (induction hay needle rule: startswith.induct) auto

lemma str_in_iff: "str_in needle hay \<longleftrightarrow> (\<exists>p q. hay = p @ needle @ q)"
proof (induction hay)
  case Nil
  then show ?case by auto
next
  case (Cons h hs)
  show ?case
  proof
    assume "str_in needle (h # hs)"
    then consider "startswith (h # hs) needle" | "str_in needle hs" by auto
    then show "\<exists>p q. h # hs = p @ needle @ q"
    proof cases
      case 1
      then obtain q where "h # hs = needle @ q" by (auto simp: startswith_iff)
      then have "h # hs = [] @ needle @ q" by simp
      then show ?thesis by blast
    next
      case 2
      with Cons obtain p q where "hs = p @ needle @ q" by auto
      then have "h # hs = (h # p) @ needle @ q" by simp
      then show ?thesis by blast
    qed
  next
    assume "\<exists>p q. h # hs = p @ needle @ q"
    then obtain p q where pq: "h # hs = p @ needle @ q" by auto
    show "str_in needle (h # hs)"
    proof (cases p)
      case Nil
      with pq have "startswith (h # hs) needle" by (auto simp: startswith_iff)
      then show ?thesis by simp
    next
      case (Cons a p')
      with pq have "hs = p' @ needle @ q" by simp
      with Cons.IH have "str_in needle hs" by blast
      then show ?thesis by simp
    qed
  qed
qed

lemma row_matches_iff:
  "row_matches L (str_lower L f) (w, h, q, n, rest) \<longleftrightarrow>
     ci_substring L f w \<or> ci_substring L f h \<or> ci_substring L f (or_empty n)"
  by (simp add: row_matches_def ci_substring_def str_in_iff split: prod.splits)

text \<open>
  Claim C6. For every filter text, \<open>apply_history_filter\<close> lists exactly the rows of
  the history query in which the filter is a case-insensitive substring of the worker
  name, or of the house name, or of the note (\<open>NULL\<close> read as the empty text), in the
  order of the query; when the query raises, so does the filter. The witness is the
  filter \<^verbatim>\<open>north\<close>, which keeps the record of the house \<^verbatim>\<open>Northgate\<close> although neither
  the worker nor the note matches.
\<close>

theorem apply_history_filter_matches:
  "apply_history_filter L d f =
     (case select_history d of
        Inl e \<Rightarrow> Inl e
      | Inr rows \<Rightarrow>
          Inr (map (row_values L)
                 (filter (\<lambda>(w, h, q, n, rest).
                    ci_substring L f w \<or> ci_substring L f h \<or> ci_substring L f (or_empty n)) rows)))"
proof -
  have "row_matches L (str_lower L f) =
     (\<lambda>(w, h, q, n, rest). ci_substring L f w \<or> ci_substring L f h \<or> ci_substring L f (or_empty n))"
    by (rule ext) (auto simp: row_matches_iff)
  then show ?thesis
    by (simp add: apply_history_filter_def fetch_all_def connect_def Let_def split: sum.splits)
qed

theorem apply_history_filter_matches_witness:
  "apply_history_filter example_lib history_db ''north'' = Inr [northgate_values] \<and>
   (case select_history history_db of
        Inl e \<Rightarrow> Inl e
      | Inr rows \<Rightarrow>
          Inr (map (row_values example_lib)
                 (filter (\<lambda>(w, h, q, n, rest).
                    ci_substring example_lib ''north'' w \<or> ci_substring example_lib ''north'' h \<or>
                    ci_substring example_lib ''north'' (or_empty n)) rows))) = Inr [northgate_values] \<and>
   ci_substring example_lib ''north'' ''Northgate'' \<and>
   \<not> ci_substring example_lib ''north'' ''Ana'' \<and> \<not> ci_substring example_lib ''north'' []"
proof -
  have 1: "apply_history_filter example_lib history_db ''north'' = Inr [northgate_values]"
    by code_simp
  have 2: "str_in (str_lower example_lib ''north'') (str_lower example_lib ''Northgate'')" by code_simp
  have 3: "\<not> str_in (str_lower example_lib ''north'') (str_lower example_lib ''Ana'')" by code_simp
  have 4: "\<not> str_in (str_lower example_lib ''north'') (str_lower example_lib [])" by code_simp
  from 1 2 3 4 apply_history_filter_matches [of example_lib history_db "''north''"]
  show ?thesis by (simp add: ci_substring_def str_in_iff)
qed

subsection \<open>C5: the export\<close>

text \<open>
  Claim C5, as the spec states it, fails: \<open>export_history\<close> takes no filter. With the
  filter \<^verbatim>\<open>north\<close> the list shows one record, and the exported file holds the header and
  both records.
\<close>

theorem export_history_ignores_filter_counterexample:
  "apply_history_filter example_lib history_db ''north'' = Inr [northgate_values] \<and>
   export_history example_lib history_db ''out.csv'' =
     (Some [csv_header,
            [''Ana'', ''Southfield'', ''2'', ''late ok'', ''01.05.2024'', ''30.04.2024 18:05'', ''Pending''],
            [''Ana'', ''Northgate'', ''1'', [], ''01.05.2024'', ''30.04.2024 18:05'', ''Sent'']],
      [showinfo (''Data exported successfully to:'' @ newline @ ''out.csv'')]) \<and>
   fst (export_history example_lib history_db ''out.csv'') \<noteq>
     Some (csv_header # map csv_fields [northgate_values])"
  by code_simp

text \<open>
  Claim C5, amended. The export does not depend on the filter: when a file name is chosen
  and the query succeeds, the file is the header row \<^verbatim>\<open>Worker, House, Quantity, Note,
  Assignment Date, Record Date, Status\<close> followed by one row per record of the unfiltered
  list (\<open>load_history_data\<close>), in the same order and with the same seven values, the
  quantity written as a decimal number. The unfiltered list is also what the empty filter
  shows (when \<^verbatim>\<open>''.lower()\<close> is empty). When the query raises, no file is written and
  \<^verbatim>\<open>Export failed\<close> is shown; without a file name nothing happens.
\<close>

theorem export_history_lists_all:
  "export_history L d filename =
     (if filename = [] then (None, [])
      else (case load_history_data L d of
              Inl e \<Rightarrow> (None, [showerror (''Export failed: '' @ str_exn e)])
            | Inr listed \<Rightarrow>
                (Some (csv_header # map csv_fields listed),
                 [showinfo (''Data exported successfully to:'' @ newline @ filename)]))) \<and>
   (str_lower L [] = [] \<longrightarrow> apply_history_filter L d [] = load_history_data L d) \<and>
   csv_fields (w, h, q, n, ad, da, st) =
     [w, h, (case q of None \<Rightarrow> [] | Some k \<Rightarrow> str_int k), n, ad, da, st]"
proof -
  have "str_in [] hay" for hay by (cases hay) simp_all
  then have "row_matches L [] r" for r
    by (simp add: row_matches_def split: prod.splits)
  then show ?thesis
    by (simp add: export_history_def load_history_data_def apply_history_filter_def
        csv_fields_def Let_def split: sum.splits)
qed

theorem export_history_lists_all_witness:
  "str_lower example_lib [] = [] \<and>
   load_history_data example_lib history_db = Inr [southfield_values, northgate_values] \<and>
   apply_history_filter example_lib history_db [] = Inr [southfield_values, northgate_values] \<and>
   export_history example_lib history_db ''out.csv'' =
     (Some (csv_header # map csv_fields [southfield_values, northgate_values]),
      [showinfo (''Data exported successfully to:'' @ newline @ ''out.csv'')])"
proof -
  have 1: "str_lower example_lib [] = []" by code_simp
  have 2: "load_history_data example_lib history_db = Inr [southfield_values, northgate_values]"
    by code_simp
  have 3: "''out.csv'' \<noteq> []" by simp
  from export_history_lists_all [of example_lib history_db "''out.csv''"] 1 2 3
  show ?thesis by simp
qed

subsection \<open>What the repository calls do on a ready store\<close>

lemma readyE:
  assumes "ready d"
  obtains ws hs cols rs where "workers d = Some ws" "houses d = Some hs"
    "assignment_history d = Some (cols, rs)" "list_all (has_column cols) all_columns"
  using assms by (auto simp: ready_def split: option.splits)

lemma missing_column_None:
  "list_all (has_column cols) all_columns \<Longrightarrow> set needed \<subseteq> set all_columns \<Longrightarrow>
     missing_column cols needed = None"
  by (auto simp: missing_column_def find_None_iff list_all_iff)

lemma all_columns_set:
  "set all_columns = {''id'', ''worker_id'', ''house_id'', ''quantity'', ''note'', ''date_assigned'',
     ''assignment_date'', ''email_sent''}"
  by (auto simp: all_columns_def base_columns_def)

lemma execute_eq: "execute stmt d = stmt d"
  by (cases "stmt d") (simp_all add: execute_def execute_dml_def connect_def commit_def close_def)

lemma fetch_all_eq: "fetch_all q d = q d"
  by (simp add: fetch_all_def connect_def)

lemma select_assigned_houses_ready:
  assumes "assignment_history d = Some (cols, rs)" "list_all (has_column cols) all_columns"
  shows "select_assigned_houses date_str d =
     Inr (remdups (map house_id
       (filter (\<lambda>a. assignment_date a = Some date_str \<and> email_sent a = Some 1) rs)))"
proof -
  have "missing_column cols [''house_id'', ''assignment_date'', ''email_sent''] = None"
    using assms(2) by (rule missing_column_None) (simp add: all_columns_set)
  with assms(1) show ?thesis by (simp add: select_assigned_houses_def)
qed

lemma assigned_houses_ready:
  assumes "assignment_history d = Some (cols, rs)" "list_all (has_column cols) all_columns"
  shows "set (assigned_houses d (Some dt)) =
     house_id ` {a \<in> set rs. assignment_date a = Some (strftime_Ymd dt) \<and> email_sent a = Some 1}"
  using select_assigned_houses_ready [OF assms]
  by (simp add: assigned_houses_def get_assigned_houses_for_date_def fetch_all_eq)

lemma sorted_map_filter: "sorted (map f xs) \<Longrightarrow> sorted (map f (filter P xs))"
  by (induction xs) auto

subsection \<open>C1: the houses available for a date\<close>

text \<open>
  Claim C1. On a ready store, for every date \<open>dt\<close> of the date picker, the houses that
  \<^verbatim>\<open>_refresh_houses\<close> lists are all houses ordered by name (\<open>rows\<close>) without those whose
  key is the \<^verbatim>\<open>house_id\<close> of some assignment row with \<^verbatim>\<open>assignment_date\<close> equal to the
  date and \<^verbatim>\<open>email_sent = 1\<close>. Hence a house with such a (delivered) row for the date
  is never listed; a house of the table all of whose rows for the date have another flag
  (pending) is listed; and the list is a subsequence of \<open>rows\<close>, so it keeps the order by
  name. The list is what \<open>refresh_houses\<close> creates the check boxes from.
\<close>

theorem available_houses_rule:
  assumes "ready d"
  shows "\<exists>hs cols rs rows available.
     houses d = Some hs \<and> assignment_history d = Some (cols, rs) \<and>
     select_houses d = Inr rows \<and> rows = sort_key snd hs \<and> sorted (map snd rows) \<and>
     available = available_houses rows (assigned_houses d (Some dt)) \<and>
     available =
       filter (\<lambda>(hid, name). \<not> (\<exists>a \<in> set rs. house_id a = Some hid \<and>
                 assignment_date a = Some (strftime_Ymd dt) \<and> email_sent a = Some 1)) rows \<and>
     (\<forall>a \<in> set rs. \<forall>name. assignment_date a = Some (strftime_Ymd dt) \<and> email_sent a = Some 1 \<longrightarrow>
        (\<forall>hid. house_id a = Some hid \<longrightarrow> (hid, name) \<notin> set available)) \<and>
     (\<forall>h \<in> set hs.
        (\<forall>a \<in> set rs. house_id a = Some (fst h) \<and> assignment_date a = Some (strftime_Ymd dt) \<longrightarrow>
           email_sent a \<noteq> Some 1) \<longrightarrow> h \<in> set available) \<and>
     sorted (map snd available) \<and> subseq available rows \<and>
     (\<forall>s. db_manager s = d \<and> date_picker s = Some dt \<longrightarrow>
        refresh_houses s =
          (None, create_house_rows available
                   (s\<lparr>house_vars := [], house_qty := [], all_houses := rows\<rparr>)))"
proof -
  from assms obtain ws :: "worker list" and hs cols rs where hs: "houses d = Some hs"
    and ah: "assignment_history d = Some (cols, rs)"
    and cols: "list_all (has_column cols) all_columns"
    by (rule readyE)
  define rows where "rows = sort_key snd hs"
  define available where "available = available_houses rows (assigned_houses d (Some dt))"
  let ?P = "\<lambda>(hid, name). \<not> (\<exists>a \<in> set rs. house_id a = Some hid \<and>
                 assignment_date a = Some (strftime_Ymd dt) \<and> email_sent a = Some 1)"
  have sel: "select_houses d = Inr rows"
    using hs by (simp add: select_houses_def rows_def)
  have srt: "sorted (map snd rows)" by (simp add: rows_def)
  have av: "available = filter ?P rows"
    unfolding available_def available_houses_def assigned_houses_ready [OF ah cols]
    by (rule filter_cong) (auto simp: image_iff)
  have setrows: "set rows = set hs" by (simp add: rows_def)
  have 1: "\<forall>a \<in> set rs. \<forall>name. assignment_date a = Some (strftime_Ymd dt) \<and> email_sent a = Some 1 \<longrightarrow>
        (\<forall>hid. house_id a = Some hid \<longrightarrow> (hid, name) \<notin> set available)"
    unfolding av by auto
  have 2: "\<forall>h \<in> set hs.
        (\<forall>a \<in> set rs. house_id a = Some (fst h) \<and> assignment_date a = Some (strftime_Ymd dt) \<longrightarrow>
           email_sent a \<noteq> Some 1) \<longrightarrow> h \<in> set available"
    unfolding av using setrows by auto
  have 3: "sorted (map snd available)"
    unfolding av using srt by (rule sorted_map_filter)
  have 4: "subseq available rows" unfolding av by simp
  have 5: "\<forall>s. db_manager s = d \<and> date_picker s = Some dt \<longrightarrow>
        refresh_houses s =
          (None, create_house_rows available
                   (s\<lparr>house_vars := [], house_qty := [], all_houses := rows\<rparr>))"
    using sel by (simp add: refresh_houses_def fetch_all_eq available_def Let_def)
  show ?thesis
    apply (rule exI [of _ hs], rule exI [of _ cols], rule exI [of _ rs])
    apply (rule exI [of _ rows], rule exI [of _ available])
    apply (intro conjI)
    apply (rule hs, rule ah, rule sel, rule rows_def, rule srt, rule available_def, rule av)
    apply (rule 1, rule 2, rule 3, rule 4, rule 5)
    done
qed

theorem available_houses_rule_witness:
  "ready history_db \<and>
   select_houses history_db = Inr [(1, ''Northgate''), (2, ''Southfield'')] \<and>
   available_houses [(1, ''Northgate''), (2, ''Southfield'')]
     (assigned_houses history_db (Some (2024, 5, 1))) = [(2, ''Southfield'')] \<and>
   subseq [(2, ''Southfield'')] [(1, ''Northgate''), (2 :: int, ''Southfield'')] \<and>
   available_houses [(1, ''Northgate''), (2, ''Southfield'')]
     (assigned_houses history_db (Some (2024, 5, 2))) =
     [(1, ''Northgate''), (2, ''Southfield'')]"
proof -
  have r: "ready history_db" by code_simp
  have e1: "select_houses history_db = Inr [(1, ''Northgate''), (2, ''Southfield'')]"
    by code_simp
  have e2: "available_houses [(1, ''Northgate''), (2, ''Southfield'')]
     (assigned_houses history_db (Some (2024, 5, 1))) = [(2, ''Southfield'')]"
    by code_simp
  have e3: "available_houses [(1, ''Northgate''), (2, ''Southfield'')]
     (assigned_houses history_db (Some (2024, 5, 2))) =
     [(1, ''Northgate''), (2, ''Southfield'')]"
    by code_simp
  from available_houses_rule [OF r, of "(2024, 5, 1)"] obtain rows available
    where "select_houses history_db = Inr rows"
      and "available = available_houses rows (assigned_houses history_db (Some (2024, 5, 1)))"
      and "subseq available rows"
    by blast
  with e1 e2 have "subseq [(2, ''Southfield'')] [(1, ''Northgate''), (2 :: int, ''Southfield'')]"
    by simp
  with r e1 e2 e3 show ?thesis by simp
qed

subsection \<open>The handlers and the history table\<close>

lemma create_house_rows_db [simp]: "db_manager (create_house_rows av s) = db_manager s"
  unfolding create_house_rows_def
  by (induction av arbitrary: s) (simp_all split: prod.splits)

lemma clear_house_selections_db [simp]: "db_manager (clear_house_selections s) = db_manager s"
  by (simp add: clear_house_selections_def)

lemma refresh_houses_db: "refresh_houses s = (r, s') \<Longrightarrow> db_manager s' = db_manager s"
  by (auto simp: refresh_houses_def Let_def split: sum.splits)

lemma refresh_workers_db: "refresh_workers s = (r, s') \<Longrightarrow> db_manager s' = db_manager s"
  by (auto simp: refresh_workers_def split: sum.splits)

lemma refresh_both_db: "refresh_both s shown = (r, s', shown') \<Longrightarrow> db_manager s' = db_manager s"
  by (auto simp: refresh_both_def split: prod.splits option.splits
      dest!: refresh_houses_db refresh_workers_db)

lemma insert_worker_history: "insert_worker n e d = Inr d' \<Longrightarrow> assignment_history d' = assignment_history d"
  by (auto simp: insert_worker_def Let_def split: option.splits)

lemma update_worker_history: "update_worker n e w d = Inr d' \<Longrightarrow> assignment_history d' = assignment_history d"
  by (auto simp: update_worker_def split: option.splits)

lemma delete_worker_row_history: "delete_worker_row w d = Inr d' \<Longrightarrow> assignment_history d' = assignment_history d"
  by (auto simp: delete_worker_row_def split: option.splits)

lemma insert_house_history: "insert_house n d = Inr d' \<Longrightarrow> assignment_history d' = assignment_history d"
  by (auto simp: insert_house_def Let_def split: option.splits)

lemma update_house_history: "update_house n h d = Inr d' \<Longrightarrow> assignment_history d' = assignment_history d"
  by (auto simp: update_house_def split: option.splits)

lemma delete_house_row_history: "delete_house_row h d = Inr d' \<Longrightarrow> assignment_history d' = assignment_history d"
  by (auto simp: delete_house_row_def split: option.splits)

lemma on_worker_select_history:
  "on_worker_select sel s = (r, s', shown) \<Longrightarrow>
     assignment_history (db_manager s') = assignment_history (db_manager s)"
  by (auto simp: on_worker_select_def split: option.splits if_splits prod.splits
      dest!: refresh_houses_db)

lemma unselect_worker_history:
  "unselect_worker s = (r, s', shown) \<Longrightarrow>
     assignment_history (db_manager s') = assignment_history (db_manager s)"
  by (auto simp: unselect_worker_def split: prod.splits dest!: refresh_houses_db)

lemma select_date_history:
  "select_date dt s = (r, s', shown) \<Longrightarrow>
     assignment_history (db_manager s') = assignment_history (db_manager s)"
  by (auto simp: select_date_def split: option.splits prod.splits dest!: refresh_houses_db)

lemma add_worker_history:
  "add_worker entered s = (r, s', shown) \<Longrightarrow>
     assignment_history (db_manager s') = assignment_history (db_manager s)"
  by (auto simp: add_worker_def execute_eq split: option.splits sum.splits prod.splits
      dest!: refresh_workers_db insert_worker_history)

lemma edit_worker_history:
  "edit_worker sel entered s = (r, s', shown) \<Longrightarrow>
     assignment_history (db_manager s') = assignment_history (db_manager s)"
  by (auto simp: edit_worker_def execute_eq split: option.splits sum.splits prod.splits if_splits
      dest!: refresh_workers_db update_worker_history)

lemma delete_worker_history:
  "delete_worker sel c s = (r, s', shown) \<Longrightarrow>
     assignment_history (db_manager s') = assignment_history (db_manager s)"
  by (auto simp: delete_worker_def execute_eq split: option.splits sum.splits if_splits
      dest!: refresh_both_db delete_worker_row_history)

lemma add_house_history:
  "add_house entered s = (r, s', shown) \<Longrightarrow>
     assignment_history (db_manager s') = assignment_history (db_manager s)"
  by (auto simp: add_house_def execute_eq split: option.splits sum.splits prod.splits if_splits
      dest!: refresh_houses_db insert_house_history)

lemma edit_house_history:
  "edit_house pick entered s = (r, s', shown) \<Longrightarrow>
     assignment_history (db_manager s') = assignment_history (db_manager s)"
  by (auto simp: edit_house_def execute_eq fetch_all_eq
      split: option.splits sum.splits prod.splits if_splits
      dest!: refresh_houses_db update_house_history)

lemma delete_house_history:
  "delete_house pick c s = (r, s', shown) \<Longrightarrow>
     assignment_history (db_manager s') = assignment_history (db_manager s)"
  by (auto simp: delete_house_def execute_eq fetch_all_eq
      split: option.splits sum.splits prod.splits if_splits
      dest!: refresh_houses_db delete_house_row_history)

subsection \<open>C2: what a batch inserts\<close>

lemma insert_assignment_ready:
  assumes "assignment_history d = Some (cols, rs)" "list_all (has_column cols) all_columns"
  shows "\<exists>d' row. insert_assignment now wid hid qty nt date_str d = Inr d' \<and>
     assignment_history d' = Some (cols, rs @ [row]) \<and>
     workers d' = workers d \<and> houses d' = houses d \<and>
     inserted_columns row = (Some wid, Some hid, Some qty, Some nt, Some date_str, Some 1) \<and>
     date_assigned row = Some now"
proof -
  have m: "missing_column cols
      [''worker_id'', ''house_id'', ''quantity'', ''note'', ''assignment_date'', ''email_sent''] = None"
    using assms(2) by (rule missing_column_None) (simp add: all_columns_set)
  have c: "has_column cols ''date_assigned''"
    using assms(2) by (simp add: list_all_iff all_columns_set)
  show ?thesis
    using assms(1) m c
    by (simp add: insert_assignment_def Let_def inserted_columns_def)
qed

lemma insert_assignment_Inr:
  assumes "insert_assignment now wid hid qty nt date_str d = Inr d'"
  shows "\<exists>cols rs row. assignment_history d = Some (cols, rs) \<and>
     assignment_history d' = Some (cols, rs @ [row]) \<and>
     workers d' = workers d \<and> houses d' = houses d"
proof (cases "assignment_history d")
  case None
  with assms show ?thesis by (simp add: insert_assignment_def)
next
  case (Some t)
  obtain cols rs where t: "t = (cols, rs)" by (cases t)
  with assms Some show ?thesis
    by (auto simp: insert_assignment_def Let_def split: option.splits)
qed

lemma save_assignments_from_ready:
  assumes "assignment_history d = Some (cols, rs)" "list_all (has_column cols) all_columns"
  shows "\<exists>d' new. save_assignments_from E k wid sel date_str d = (None, d') \<and>
     assignment_history d' = Some (cols, rs @ new) \<and>
     workers d' = workers d \<and> houses d' = houses d \<and>
     map inserted_columns new =
       map (\<lambda>(hid, qty, nt). (Some wid, Some hid, Some qty, Some nt, Some date_str, Some 1)) sel \<and>
     map date_assigned new = map (\<lambda>j. Some (clock E (k + j))) [0..<length sel]"
  using assms
proof (induction sel arbitrary: k d rs)
  case Nil
  then show ?case by simp
next
  case (Cons x sel)
  obtain hid qty nt where x: "x = (hid, qty, nt)" by (cases x)
  from insert_assignment_ready [OF Cons.prems, of "clock E k" wid hid qty nt date_str]
  obtain d1 row where i: "insert_assignment (clock E k) wid hid qty nt date_str d = Inr d1"
    and h1: "assignment_history d1 = Some (cols, rs @ [row])"
    and w1: "workers d1 = workers d" "houses d1 = houses d"
    and r1: "inserted_columns row = (Some wid, Some hid, Some qty, Some nt, Some date_str, Some 1)"
    and t1: "date_assigned row = Some (clock E k)"
    by blast
  from Cons.IH [OF h1 Cons.prems(2), of "Suc k"]
  obtain d' new where s: "save_assignments_from E (Suc k) wid sel date_str d1 = (None, d')"
    and h': "assignment_history d' = Some (cols, (rs @ [row]) @ new)"
    and w': "workers d' = workers d1" "houses d' = houses d1"
    and r': "map inserted_columns new =
       map (\<lambda>(hid, qty, nt). (Some wid, Some hid, Some qty, Some nt, Some date_str, Some 1)) sel"
    and t': "map date_assigned new = map (\<lambda>j. Some (clock E (Suc k + j))) [0..<length sel]"
    by blast
  have "save_assignments_from E k wid (x # sel) date_str d = (None, d')"
    using i s x by (simp add: execute_eq)
  moreover have "assignment_history d' = Some (cols, rs @ (row # new))"
    using h' by simp
  moreover have "map date_assigned (row # new) =
      map (\<lambda>j. Some (clock E (k + j))) [0..<length (x # sel)]"
    using t1 t' by (simp add: map_upt_Suc del: upt_Suc)
  moreover have "map inserted_columns (row # new) =
       map (\<lambda>(hid, qty, nt). (Some wid, Some hid, Some qty, Some nt, Some date_str, Some 1)) (x # sel)"
    using r1 r' x by simp
  ultimately show ?case using w1 w' by metis
qed

lemma save_assignments_from_any:
  "save_assignments_from E k wid sel date_str d = (r, d') \<Longrightarrow>
     (\<exists>new. history_rows d' = history_rows d @ new) \<and>
     map_option fst (assignment_history d') = map_option fst (assignment_history d)"
proof (induction sel arbitrary: k d)
  case Nil
  then show ?case by simp
next
  case (Cons x sel)
  obtain hid qty nt where x: "x = (hid, qty, nt)" by (cases x)
  show ?case
  proof (cases "insert_assignment (clock E k) wid hid qty nt date_str d")
    case (Inl e)
    with Cons.prems x show ?thesis by (simp add: execute_eq)
  next
    case (Inr d1)
    with Cons.prems x have "save_assignments_from E (Suc k) wid sel date_str d1 = (r, d')"
      by (simp add: execute_eq)
    from Cons.IH [OF this] obtain new where
      n: "history_rows d' = history_rows d1 @ new"
      and c: "map_option fst (assignment_history d') = map_option fst (assignment_history d1)"
      by blast
    from insert_assignment_Inr [OF Inr] obtain cols rs row where
      "assignment_history d = Some (cols, rs)" "assignment_history d1 = Some (cols, rs @ [row])"
      by blast
    with n c show ?thesis by (simp add: history_rows_def)
  qed
qed

lemma send_assignments_db:
  assumes "current_worker s = Some (wid, wname, wemail)"
    and "collect_selected (house_vars s) (house_qty s) (house_notes s) = Inr sel"
    and "sel \<noteq> []" and "date_picker s = Some dt"
    and "save_assignments_to_db E wid sel (strftime_Ymd dt) (db_manager s) = (r0, d')"
  shows "fst (send_assignments E s) = None \<and> db_manager (fst (snd (send_assignments E s))) = d'"
proof (cases r0)
  case (Some e)
  with assms show ?thesis by (simp add: send_assignments_def Let_def)
next
  case None
  show ?thesis
  proof (cases "send_assignment_email E wemail wname
      (prepare_assignment_data (all_houses s) sel) (strftime_dmY dt)")
    case (Some e)
    with assms None show ?thesis by (simp add: send_assignments_def Let_def)
  next
    case n: None
    obtain r1 s1 where rf: "refresh_houses (clear_house_selections (s\<lparr>db_manager := d'\<rparr>)) = (r1, s1)"
      by (cases "refresh_houses (clear_house_selections (s\<lparr>db_manager := d'\<rparr>))")
    from refresh_houses_db [OF rf] have "db_manager s1 = d'" by simp
    with assms None n rf show ?thesis
      by (cases r1) (simp_all add: send_assignments_def Let_def)
  qed
qed

text \<open>
  Claim C2, as the spec states it, fails: the rows are inserted with the delivery flag 1
  (status \<^verbatim>\<open>Sent\<close>), not 0, and they keep it when the notification raises afterwards.
\<close>

theorem send_assignments_pending_counterexample:
  "map email_sent (history_rows (db_manager (fst (snd (send_assignments failing example_app))))) =
     [Some 1, Some 1] \<and>
   map (\<lambda>a. status_of (email_sent a))
     (history_rows (db_manager (fst (snd (send_assignments failing example_app))))) =
     [''Sent'', ''Sent''] \<and>
   snd (snd (send_assignments failing example_app)) =
     [showerror ''Failed to send assignments: Connection refused'']"
  by code_simp

text \<open>
  Claim C2, amended. On a ready store, with a worker selected, a non-empty selection and a
  date picker, \<open>send_assignments\<close> appends exactly one row per selection, in order, to
  \<^verbatim>\<open>assignment_history\<close>, each with the worker, the house, the quantity and the note of the
  selection, \<^verbatim>\<open>assignment_date\<close> the date of the picker as \<^verbatim>\<open>YYYY-MM-DD\<close>, the creation
  time of its insert and \<^verbatim>\<open>email_sent = 1\<close>. The rows are written by
  \<open>save_assignments_to_db\<close> before the notification is attempted, and they are what the
  store holds afterwards whatever the SMTP session does.
\<close>

theorem send_assignments_inserts_sent:
  assumes "ready (db_manager s)"
    and "current_worker s = Some (wid, wname, wemail)"
    and "collect_selected (house_vars s) (house_qty s) (house_notes s) = Inr sel"
    and "sel \<noteq> []" and "date_picker s = Some dt"
  shows "\<exists>cols rs new d'.
     assignment_history (db_manager s) = Some (cols, rs) \<and>
     save_assignments_to_db E wid sel (strftime_Ymd dt) (db_manager s) = (None, d') \<and>
     assignment_history d' = Some (cols, rs @ new) \<and>
     length new = length sel \<and>
     map inserted_columns new =
       map (\<lambda>(hid, qty, nt).
              (Some wid, Some hid, Some qty, Some nt, Some (strftime_Ymd dt), Some 1)) sel \<and>
     map date_assigned new = map (\<lambda>j. Some (clock E j)) [0..<length sel] \<and>
     fst (send_assignments E s) = None \<and>
     db_manager (fst (snd (send_assignments E s))) = d'"
proof -
  from assms(1) obtain ws :: "worker list" and hs :: "house list" and cols rs
    where ah: "assignment_history (db_manager s) = Some (cols, rs)"
    and cols: "list_all (has_column cols) all_columns"
    by (rule readyE)
  from save_assignments_from_ready [OF ah cols, of E 0 wid sel "strftime_Ymd dt"]
  obtain d' new where sv: "save_assignments_to_db E wid sel (strftime_Ymd dt) (db_manager s) = (None, d')"
    and h': "assignment_history d' = Some (cols, rs @ new)"
    and p: "map inserted_columns new =
       map (\<lambda>(hid, qty, nt).
              (Some wid, Some hid, Some qty, Some nt, Some (strftime_Ymd dt), Some 1)) sel"
    and t: "map date_assigned new = map (\<lambda>j. Some (clock E j)) [0..<length sel]"
    by (auto simp: save_assignments_to_db_def)
  from p have len: "length new = length sel" by (rule map_eq_imp_length_eq)
  from send_assignments_db [OF assms(2-5) sv] ah sv h' p t len
  show ?thesis by blast
qed

theorem send_assignments_inserts_sent_witness:
  "ready (db_manager example_app) \<and>
   current_worker example_app = Some (1, ''Ana'', ''ana@x.com'') \<and>
   collect_selected (house_vars example_app) (house_qty example_app) (house_notes example_app) =
     Inr [(1, 1, []), (2, 2, ''late ok'')] \<and>
   date_picker example_app = Some (2024, 5, 1) \<and>
   fst (send_assignments failing example_app) = None \<and>
   map inserted_columns
     (history_rows (db_manager (fst (snd (send_assignments failing example_app))))) =
     [(Some 1, Some 1, Some 1, Some [], Some ''2024-05-01'', Some 1),
      (Some 1, Some 2, Some 2, Some ''late ok'', Some ''2024-05-01'', Some 1)]"
proof -
  have r: "ready (db_manager example_app)" by code_simp
  have w: "current_worker example_app = Some (1, ''Ana'', ''ana@x.com'')" by code_simp
  have c: "collect_selected (house_vars example_app) (house_qty example_app) (house_notes example_app) =
     Inr [(1, 1, []), (2, 2, ''late ok'')]" by code_simp
  have n: "[(1, 1, []), (2, 2, ''late ok'')] \<noteq> ([] :: (int \<times> int \<times> string) list)" by simp
  have p: "date_picker example_app = Some (2024, 5, 1)" by code_simp
  have h: "assignment_history (db_manager example_app) = Some (all_columns, [])" by code_simp
  have y: "strftime_Ymd (2024, 5, 1) = ''2024-05-01''" by code_simp
  from send_assignments_inserts_sent [OF r w c n p, of failing]
  obtain cols rs new d' where "assignment_history (db_manager example_app) = Some (cols, rs)"
    and "assignment_history d' = Some (cols, rs @ new)"
    and "map inserted_columns new =
       map (\<lambda>(hid, qty, nt).
              (Some 1, Some hid, Some qty, Some nt, Some (strftime_Ymd (2024, 5, 1)), Some 1))
         [(1, 1, []), (2, 2, ''late ok'')]"
    and "fst (send_assignments failing example_app) = None"
    and "db_manager (fst (snd (send_assignments failing example_app))) = d'"
    by blast
  with h y r w c p show ?thesis by (simp add: history_rows_def)
qed

subsection \<open>C3: what a batch rejects\<close>

lemma collect_selected_empty:
  "(\<forall>p \<in> set vars. snd p = 0) \<Longrightarrow> collect_selected vars qs ns = Inr []"
  by (induction vars qs ns rule: collect_selected.induct) auto

text \<open>
  Claim C3, as the spec states it, fails: a quantity is not checked. A selection with the
  quantity 0 is inserted and reported as sent.
\<close>

theorem send_assignments_quantity_counterexample:
  "collect_selected (house_vars zero_quantity_app) (house_qty zero_quantity_app)
     (house_notes zero_quantity_app) = Inr [(1, 0, [])] \<and>
   map quantity
     (history_rows (db_manager (fst (snd (send_assignments delivering zero_quantity_app))))) =
     [Some 0] \<and>
   history_rows (db_manager zero_quantity_app) = [] \<and>
   snd (snd (send_assignments delivering zero_quantity_app)) =
     [sent_successfully ''Ana'' ''ana@x.com'' ''01.05.2024'']"
  by code_simp

text \<open>
  Claim C3, amended. \<open>send_assignments\<close> shows an error box and returns with the state
  and the store exactly as they were when no worker is selected, when a worker is selected
  and no check box is ticked, and when worker and selection are there and the date picker
  is not available.
\<close>

theorem send_assignments_rejects:
  "(current_worker s = None \<longrightarrow>
      send_assignments E s = (None, s, [showerror ''Please select a worker.''])) \<and>
   (current_worker s \<noteq> None \<and> (\<forall>p \<in> set (house_vars s). snd p = 0) \<longrightarrow>
      send_assignments E s = (None, s, [showerror ''Please select at least one house.''])) \<and>
   (current_worker s \<noteq> None \<and> date_picker s = None \<and>
    (\<exists>sel. collect_selected (house_vars s) (house_qty s) (house_notes s) = Inr sel \<and> sel \<noteq> []) \<longrightarrow>
      send_assignments E s =
        (None, s, [showerror ''Date picker not available. Please install tkcalendar.'']))"
  by (auto simp: send_assignments_def collect_selected_empty)

theorem send_assignments_rejects_witness:
  "current_worker (example_app\<lparr>current_worker := None\<rparr>) = None \<and>
   send_assignments delivering (example_app\<lparr>current_worker := None\<rparr>) =
     (None, example_app\<lparr>current_worker := None\<rparr>, [showerror ''Please select a worker.'']) \<and>
   send_assignments delivering (example_app\<lparr>house_vars := [(1, 0), (2, 0)]\<rparr>) =
     (None, example_app\<lparr>house_vars := [(1, 0), (2, 0)]\<rparr>,
      [showerror ''Please select at least one house.'']) \<and>
   send_assignments delivering (example_app\<lparr>date_picker := None\<rparr>) =
     (None, example_app\<lparr>date_picker := None\<rparr>,
      [showerror ''Date picker not available. Please install tkcalendar.''])"
proof -
  have 1: "current_worker (example_app\<lparr>current_worker := None\<rparr>) = None" by simp
  have 2: "current_worker (example_app\<lparr>house_vars := [(1, 0), (2, 0)]\<rparr>) \<noteq> None \<and>
    (\<forall>p \<in> set (house_vars (example_app\<lparr>house_vars := [(1, 0), (2, 0)]\<rparr>)). snd p = 0)"
    by (simp add: example_app_def)
  have 3: "current_worker (example_app\<lparr>date_picker := None\<rparr>) \<noteq> None \<and>
    date_picker (example_app\<lparr>date_picker := None\<rparr>) = None \<and>
    (\<exists>sel. collect_selected (house_vars (example_app\<lparr>date_picker := None\<rparr>))
       (house_qty (example_app\<lparr>date_picker := None\<rparr>))
       (house_notes (example_app\<lparr>date_picker := None\<rparr>)) = Inr sel \<and> sel \<noteq> [])"
    by (simp add: example_app_def)
  from send_assignments_rejects [of "example_app\<lparr>current_worker := None\<rparr>" delivering] 1
    send_assignments_rejects [of "example_app\<lparr>house_vars := [(1, 0), (2, 0)]\<rparr>" delivering] 2
    send_assignments_rejects [of "example_app\<lparr>date_picker := None\<rparr>" delivering] 3
  show ?thesis by blast
qed

subsection \<open>C9: the history table only grows\<close>

lemma send_assignments_history:
  assumes "send_assignments E s = (r, s', shown)"
  shows "(\<exists>new. history_rows (db_manager s') = history_rows (db_manager s) @ new) \<and>
     map_option fst (assignment_history (db_manager s')) =
       map_option fst (assignment_history (db_manager s))"
proof (cases "current_worker s")
  case None
  with assms show ?thesis by (simp add: send_assignments_def)
next
  case (Some w)
  obtain wid wname wemail where w: "w = (wid, wname, wemail)" by (cases w)
  show ?thesis
  proof (cases "collect_selected (house_vars s) (house_qty s) (house_notes s)")
    case (Inl e)
    with assms Some w show ?thesis by (simp add: send_assignments_def)
  next
    case (Inr sel)
    show ?thesis
    proof (cases "sel = [] \<or> date_picker s = None")
      case True
      with assms Some w Inr show ?thesis
        by (auto simp: send_assignments_def split: if_splits)
    next
      case False
      then obtain dt where dt: "date_picker s = Some dt" and ne: "sel \<noteq> []" by auto
      obtain r0 d' where sv:
        "save_assignments_to_db E wid sel (strftime_Ymd dt) (db_manager s) = (r0, d')"
        by (cases "save_assignments_to_db E wid sel (strftime_Ymd dt) (db_manager s)")
      from send_assignments_db [OF _ Inr ne dt sv, of wname wemail] Some w assms
      have "db_manager s' = d'" by simp
      with save_assignments_from_any [OF sv [unfolded save_assignments_to_db_def]]
      show ?thesis by simp
    qed
  qed
qed

lemma step_append_only:
  assumes "step L E a s = (r, s', shown)"
  shows "(\<exists>new. history_rows (db_manager s') = history_rows (db_manager s) @ new) \<and>
     map_option fst (assignment_history (db_manager s')) =
       map_option fst (assignment_history (db_manager s)) \<and>
     (a \<noteq> SendAssignments \<longrightarrow>
        assignment_history (db_manager s') = assignment_history (db_manager s))"
proof (cases "a = SendAssignments")
  case True
  with assms send_assignments_history show ?thesis by simp
next
  case False
  have "assignment_history (db_manager s') = assignment_history (db_manager s)"
  proof (cases a)
    case (OnWorkerSelect x)
    with assms show ?thesis by (auto dest: on_worker_select_history)
  next
    case UnselectWorker
    with assms show ?thesis by (auto dest: unselect_worker_history)
  next
    case (AddWorker x)
    with assms show ?thesis by (auto dest: add_worker_history)
  next
    case (EditWorker x y)
    with assms show ?thesis by (auto dest: edit_worker_history)
  next
    case (DeleteWorker x y)
    with assms show ?thesis by (auto dest: delete_worker_history)
  next
    case (AddHouse x)
    with assms show ?thesis by (auto dest: add_house_history)
  next
    case (EditHouse x y)
    with assms show ?thesis by (auto dest: edit_house_history)
  next
    case (DeleteHouse x y)
    with assms show ?thesis by (auto dest: delete_house_history)
  next
    case (SetHouseVar x y)
    with assms show ?thesis by (auto simp: set_house_var_def)
  next
    case (SetHouseQty x y)
    with assms show ?thesis by (auto simp: set_house_qty_def)
  next
    case (SaveComment x y)
    with assms show ?thesis by (auto simp: save_comment_def)
  next
    case (SelectDate x)
    with assms show ?thesis by (auto dest: select_date_history)
  next
    case SendAssignments
    with False show ?thesis by simp
  next
    case ShowHistory
    with assms show ?thesis by (auto split: sum.splits)
  next
    case (ApplyHistoryFilter x)
    with assms show ?thesis by (auto split: sum.splits)
  next
    case (ExportHistory x)
    with assms show ?thesis by auto
  qed
  then show ?thesis by (simp add: history_rows_def)
qed

lemma same_originals_refl [simp]: "same_originals d d"
  by (simp add: same_originals_def)

lemma same_originals_trans:
  "same_originals d d1 \<Longrightarrow> same_originals d1 d2 \<Longrightarrow> same_originals d d2"
  by (simp add: same_originals_def)

lemma create_workers_keeps: "keeps_originals create_workers"
  unfolding keeps_originals_def same_originals_def history_rows_def
  using create_workers_Inr by (metis sum.inject(2))

lemma create_houses_keeps: "keeps_originals create_houses"
  unfolding keeps_originals_def same_originals_def history_rows_def
  using create_houses_Inr by (metis sum.inject(2))

lemma create_assignment_history_keeps: "keeps_originals create_assignment_history"
  unfolding keeps_originals_def same_originals_def history_rows_def
  by (auto simp: create_assignment_history_def split: option.splits)

lemma alter_add_column_keeps:
  assumes "\<And>a. original_columns (f a) = original_columns a"
  shows "keeps_originals (alter_add_column n f)"
  unfolding keeps_originals_def same_originals_def history_rows_def
  using assms by (auto dest!: alter_add_column_Inr simp: comp_def)

lemma backfill_assignment_date_keeps: "keeps_originals (backfill_assignment_date L)"
  unfolding keeps_originals_def same_originals_def history_rows_def
  by (auto simp: backfill_assignment_date_def original_columns_def comp_def
      split: option.splits if_splits intro!: map_cong)

lemma backfill_email_sent_keeps: "keeps_originals backfill_email_sent"
  unfolding keeps_originals_def same_originals_def history_rows_def
  by (auto simp: backfill_email_sent_def original_columns_def comp_def
      split: option.splits if_splits intro!: map_cong)

lemma execute_ddl_keeps:
  assumes "keeps_originals stmt" "conn_keeps d c" "execute_ddl stmt c = Inr c'"
  shows "conn_keeps d c'"
proof -
  from assms(3) obtain d1 where s: "stmt (working c) = Inr d1"
    and c': "c' = (if in_transaction c then c\<lparr>working := d1\<rparr> else c\<lparr>committed := d1, working := d1\<rparr>)"
    by (cases "stmt (working c)") (auto simp: execute_ddl_def)
  from assms(1) s have "same_originals (working c) d1" by (simp add: keeps_originals_def)
  with assms(2) have "same_originals d d1"
    unfolding conn_keeps_def by (blast intro: same_originals_trans)
  with assms(2) c' show ?thesis by (simp add: conn_keeps_def)
qed

lemma execute_dml_keeps:
  assumes "keeps_originals stmt" "conn_keeps d c" "execute_dml stmt c = Inr c'"
  shows "conn_keeps d c'"
proof -
  from assms(3) obtain d1 where s: "stmt (working c) = Inr d1"
    and c': "c' = c\<lparr>working := d1, in_transaction := True\<rparr>"
    by (cases "stmt (working c)") (auto simp: execute_dml_def)
  from assms(1) s have "same_originals (working c) d1" by (simp add: keeps_originals_def)
  with assms(2) have "same_originals d d1"
    unfolding conn_keeps_def by (blast intro: same_originals_trans)
  with assms(2) c' show ?thesis by (simp add: conn_keeps_def)
qed

lemma create_tables_keeps:
  assumes "conn_keeps d c" "create_tables c = (r, c', out)"
  shows "conn_keeps d c'"
proof (cases "execute_ddl create_workers c")
  case (Inl e)
  with assms show ?thesis by (simp add: create_tables_def)
next
  case (Inr c1)
  note k1 = execute_ddl_keeps [OF create_workers_keeps assms(1) Inr]
  show ?thesis
  proof (cases "execute_ddl create_houses c1")
    case (Inl e)
    with assms Inr k1 show ?thesis by (simp add: create_tables_def)
  next
    case c2: (Inr c2)
    note k2 = execute_ddl_keeps [OF create_houses_keeps k1 c2]
    show ?thesis
    proof (cases "execute_ddl create_assignment_history c2")
      case (Inl e)
      with assms Inr c2 k2 show ?thesis by (simp add: create_tables_def)
    next
      case c3: (Inr c3)
      note k3 = execute_ddl_keeps [OF create_assignment_history_keeps k2 c3]
      with assms Inr c2 c3 show ?thesis by (simp add: create_tables_def)
    qed
  qed
qed

lemma add_assignment_date_keeps:
  assumes "conn_keeps d c" "add_assignment_date L c = (r, c', out)"
  shows "conn_keeps d c'"
proof (cases "execute_ddl (alter_add_column ''assignment_date'' (\<lambda>a. a\<lparr>assignment_date := None\<rparr>)) c")
  case (Inl e)
  with assms show ?thesis by (simp add: add_assignment_date_def)
next
  case (Inr c1)
  have "keeps_originals (alter_add_column ''assignment_date'' (\<lambda>a. a\<lparr>assignment_date := None\<rparr>))"
    by (rule alter_add_column_keeps) (simp add: original_columns_def)
  note k1 = execute_ddl_keeps [OF this assms(1) Inr]
  show ?thesis
  proof (cases "execute_dml (backfill_assignment_date L) c1")
    case (Inl e)
    with assms Inr k1 show ?thesis by (simp add: add_assignment_date_def)
  next
    case c2: (Inr c2)
    note k2 = execute_dml_keeps [OF backfill_assignment_date_keeps k1 c2]
    with assms Inr c2 show ?thesis by (simp add: add_assignment_date_def)
  qed
qed

lemma add_email_sent_keeps:
  assumes "conn_keeps d c" "add_email_sent c = (r, c', out)"
  shows "conn_keeps d c'"
proof (cases "execute_ddl (alter_add_column ''email_sent'' (\<lambda>a. a\<lparr>email_sent := Some 1\<rparr>)) c")
  case (Inl e)
  with assms show ?thesis by (simp add: add_email_sent_def)
next
  case (Inr c1)
  have "keeps_originals (alter_add_column ''email_sent'' (\<lambda>a. a\<lparr>email_sent := Some 1\<rparr>))"
    by (rule alter_add_column_keeps) (simp add: original_columns_def)
  note k1 = execute_ddl_keeps [OF this assms(1) Inr]
  show ?thesis
  proof (cases "execute_dml backfill_email_sent c1")
    case (Inl e)
    with assms Inr k1 show ?thesis by (simp add: add_email_sent_def)
  next
    case c2: (Inr c2)
    note k2 = execute_dml_keeps [OF backfill_email_sent_keeps k1 c2]
    with assms Inr c2 show ?thesis by (simp add: add_email_sent_def)
  qed
qed

lemma migrate_database_keeps:
  assumes "conn_keeps d c" "migrate_database L c = (r, c', out)"
  shows "conn_keeps d c'"
proof -
  obtain r1 c1 out1 where a: "(if ''assignment_date'' \<notin> set (table_info c)
      then add_assignment_date L c else (None, c, [])) = (r1, c1, out1)"
    using prod_cases3 by blast
  have k1: "conn_keeps d c1"
    using a assms(1) add_assignment_date_keeps by (auto split: if_splits)
  show ?thesis
  proof (cases r1)
    case (Some e)
    with a assms(2) have "c' = c1" by (simp add: migrate_database_def Let_def)
    with k1 show ?thesis by simp
  next
    case None
    obtain r2 c2 out2 where b: "(if ''email_sent'' \<notin> set (table_info c)
        then add_email_sent c1 else (None, c1, [])) = (r2, c2, out2)"
      using prod_cases3 by blast
    have k2: "conn_keeps d c2"
      using b k1 add_email_sent_keeps by (auto split: if_splits)
    from a b None assms(2) have "c' = c2" by (simp add: migrate_database_def Let_def)
    with k2 show ?thesis by simp
  qed
qed

lemma create_and_migrate_keeps:
  assumes "conn_keeps d c" "create_and_migrate L c = (r, c', out)"
  shows "conn_keeps d c'"
proof -
  obtain r0 c1 out1 where ct: "create_tables c = (r0, c1, out1)"
    by (cases "create_tables c") auto
  note k1 = create_tables_keeps [OF assms(1) ct]
  note ctr = create_tables_result [OF ct]
  obtain r1 c2 out2 where mg: "migrate_database L c1 = (r1, c2, out2)"
    by (cases "migrate_database L c1") auto
  note k2 = migrate_database_keeps [OF k1 mg]
  from assms(2) ct ctr mg have "c' = c2" by (simp add: create_and_migrate_def)
  with k2 show ?thesis by simp
qed

lemma initialize_database_keeps:
  assumes "initialize_database L d = (r, d', out)"
  shows "map original_columns (history_rows d') = map original_columns (history_rows d)"
proof -
  obtain r1 c out1 where cm: "create_and_migrate L (connect d) = (r1, c, out1)"
    by (cases "create_and_migrate L (connect d)") auto
  have "conn_keeps d (connect d)" by (simp add: conn_keeps_def connect_def)
  from create_and_migrate_keeps [OF this cm] have k: "conn_keeps d c" .
  have "d' = committed c \<or> d' = working c"
  proof (cases r1)
    case None
    with cm assms show ?thesis by (simp add: initialize_database_def close_def commit_def)
  next
    case (Some e)
    with cm assms show ?thesis
      by (cases e) (simp_all add: initialize_database_def close_def rollback_def)
  qed
  with k show ?thesis by (auto simp: conn_keeps_def same_originals_def)
qed

text \<open>
  Claim C9, as the spec states it, fails at start-up: on a store of an older version the
  migration writes into the existing rows, filling the two columns it adds.
\<close>

theorem assignment_history_migration_counterexample:
  "history_rows legacy_db = [legacy_row] \<and>
   history_rows (fst (snd (initialize_database example_lib legacy_db))) =
     [legacy_row\<lparr>assignment_date := Some ''2024-04-30'', email_sent := Some 1\<rparr>] \<and>
   legacy_row\<lparr>assignment_date := Some ''2024-04-30'', email_sent := Some 1\<rparr> \<noteq> legacy_row"
  by code_simp

text \<open>
  Claim C9, amended. Whatever handler of the running application is called (\<open>step\<close>),
  with whatever result, the rows of \<^verbatim>\<open>assignment_history\<close> before it are a prefix of the
  rows after it and the columns are the same: no row is changed or deleted, whether the
  notification fails or a worker or a house is deleted; every handler but
  \<open>SendAssignments\<close> leaves the table as it is, so rows are created by the batch commit
  only. The start-up migration keeps every row, in order, with the values of its six
  original columns (it only fills the two columns it adds), and on a migrated store it
  changes nothing.
\<close>

theorem assignment_history_append_only:
  assumes "step L E a s = (r, s', shown)"
    and "initialize_database L d = (r0, d', out)"
  shows "(\<exists>new. history_rows (db_manager s') = history_rows (db_manager s) @ new) \<and>
     map_option fst (assignment_history (db_manager s')) =
       map_option fst (assignment_history (db_manager s)) \<and>
     (a \<noteq> SendAssignments \<longrightarrow>
        assignment_history (db_manager s') = assignment_history (db_manager s)) \<and>
     map original_columns (history_rows d') = map original_columns (history_rows d) \<and>
     (migrated d \<longrightarrow> d' = d)"
proof -
  have "migrated d \<longrightarrow> d' = d"
    using init_migrated [of d L] assms(2) by auto
  with step_append_only [OF assms(1)] initialize_database_keeps [OF assms(2)]
  show ?thesis by blast
qed

theorem assignment_history_append_only_witness:
  "history_rows (db_manager history_app) = [sent_row, pending_row] \<and>
   history_rows (db_manager (fst (snd (step example_lib failing (DeleteWorker (Some 0) True)
      history_app)))) = [sent_row, pending_row] \<and>
   workers (db_manager (fst (snd (step example_lib failing (DeleteWorker (Some 0) True)
      history_app)))) = Some [] \<and>
   take 2 (history_rows (db_manager (fst (snd (step example_lib failing SendAssignments
      history_app))))) = [sent_row, pending_row] \<and>
   length (history_rows (db_manager (fst (snd (step example_lib failing SendAssignments
      history_app))))) = 4 \<and>
   map original_columns (history_rows (fst (snd (initialize_database example_lib legacy_db)))) =
     [original_columns legacy_row] \<and>
   migrated migrated_legacy_db \<and>
   fst (snd (initialize_database example_lib migrated_legacy_db)) = migrated_legacy_db"
proof -
  let ?del = "step example_lib failing (DeleteWorker (Some 0) True) history_app"
  let ?snd = "step example_lib failing SendAssignments history_app"
  let ?ini = "initialize_database example_lib legacy_db"
  let ?again = "initialize_database example_lib migrated_legacy_db"
  have h: "history_rows (db_manager history_app) = [sent_row, pending_row]" by code_simp
  have w: "workers (db_manager (fst (snd ?del))) = Some []" by code_simp
  have l: "length (history_rows (db_manager (fst (snd ?snd)))) = 4" by code_simp
  have g: "history_rows legacy_db = [legacy_row]" by code_simp
  have m: "migrated migrated_legacy_db" by code_simp
  have D: "?del = (fst ?del, fst (snd ?del), snd (snd ?del))" by simp
  have S: "?snd = (fst ?snd, fst (snd ?snd), snd (snd ?snd))" by simp
  have I: "?ini = (fst ?ini, fst (snd ?ini), snd (snd ?ini))" by simp
  have A: "?again = (fst ?again, fst (snd ?again), snd (snd ?again))" by simp
  from assignment_history_append_only [OF D I] h g
  have 1: "history_rows (db_manager (fst (snd ?del))) = [sent_row, pending_row]"
    and 3: "map original_columns (history_rows (fst (snd ?ini))) = [original_columns legacy_row]"
    by (simp_all add: history_rows_def)
  from assignment_history_append_only [OF S A] h m
  have 2: "take 2 (history_rows (db_manager (fst (snd ?snd)))) = [sent_row, pending_row]"
    and 4: "fst (snd ?again) = migrated_legacy_db"
    by auto
  from h w l m 1 2 3 4 show ?thesis by simp
qed

subsection \<open>C10: history of deleted workers and houses\<close>

lemma filter_order_by_desc: "filter P (order_by_desc key xs) = order_by_desc key (filter P xs)"
  by (simp add: order_by_desc_def rev_filter [symmetric] filter_sort)

lemma join_worker_filter:
  "filter (\<lambda>x. worker_id (fst x) \<noteq> Some wid)
     (concat (map (\<lambda>w. map (\<lambda>h. (a, w, h)) (filter (\<lambda>h. house_id a = Some (fst h)) hs))
                  (filter (\<lambda>w. worker_id a = Some (fst w)) ws))) =
   concat (map (\<lambda>w. map (\<lambda>h. (a, w, h)) (filter (\<lambda>h. house_id a = Some (fst h)) hs))
               (filter (\<lambda>w. worker_id a = Some (fst w)) (filter (\<lambda>w. fst w \<noteq> wid) ws)))"
  by (induction ws) (auto simp: filter_map comp_def)

lemma join_house_filter_row:
  "filter (\<lambda>x. house_id (fst x) \<noteq> Some hid)
          (map (\<lambda>h. (a, w, h)) (filter (\<lambda>h. house_id a = Some (fst h)) hs)) =
   map (\<lambda>h. (a, w, h))
          (filter (\<lambda>h. house_id a = Some (fst h)) (filter (\<lambda>h. fst h \<noteq> hid) hs))"
  by (induction hs) auto

lemma join_house_filter:
  "filter (\<lambda>x. house_id (fst x) \<noteq> Some hid)
     (concat (map (\<lambda>w. map (\<lambda>h. (a, w, h)) (filter (\<lambda>h. house_id a = Some (fst h)) hs)) ws')) =
   concat (map (\<lambda>w. map (\<lambda>h. (a, w, h))
                  (filter (\<lambda>h. house_id a = Some (fst h)) (filter (\<lambda>h. fst h \<noteq> hid) hs))) ws')"
  by (induction ws') (simp_all only: list.map concat.simps filter.simps filter_append
      join_house_filter_row)

lemma join_all_worker_filter:
  "concat (map (\<lambda>a. concat (map (\<lambda>w. map (\<lambda>h. (a, w, h))
                                        (filter (\<lambda>h. house_id a = Some (fst h)) hs))
                     (filter (\<lambda>w. worker_id a = Some (fst w)) (filter (\<lambda>w. fst w \<noteq> wid) ws)))) rs) =
   filter (\<lambda>x. worker_id (fst x) \<noteq> Some wid)
     (concat (map (\<lambda>a. concat (map (\<lambda>w. map (\<lambda>h. (a, w, h))
                                        (filter (\<lambda>h. house_id a = Some (fst h)) hs))
                     (filter (\<lambda>w. worker_id a = Some (fst w)) ws))) rs))"
proof (induction rs)
  case Nil
  then show ?case by simp
next
  case (Cons a rs)
  show ?case
    unfolding list.map concat.simps filter_append Cons.IH join_worker_filter ..
qed

lemma join_all_house_filter:
  "concat (map (\<lambda>a. concat (map (\<lambda>w. map (\<lambda>h. (a, w, h))
                     (filter (\<lambda>h. house_id a = Some (fst h)) (filter (\<lambda>h. fst h \<noteq> hid) hs)))
                     (filter (\<lambda>w. worker_id a = Some (fst w)) ws))) rs) =
   filter (\<lambda>x. house_id (fst x) \<noteq> Some hid)
     (concat (map (\<lambda>a. concat (map (\<lambda>w. map (\<lambda>h. (a, w, h))
                                        (filter (\<lambda>h. house_id a = Some (fst h)) hs))
                     (filter (\<lambda>w. worker_id a = Some (fst w)) ws))) rs))"
proof (induction rs)
  case Nil
  then show ?case by simp
next
  case (Cons a rs)
  show ?case
    unfolding list.map concat.simps filter_append Cons.IH join_house_filter ..
qed

lemma history_join_delete_worker:
  "history_join (filter (\<lambda>w. fst w \<noteq> wid) ws) hs rs =
     filter (\<lambda>(a, w, h). worker_id a \<noteq> Some wid) (history_join ws hs rs)"
proof -
  have "(\<lambda>(a, w, h). worker_id a \<noteq> Some wid) =
        (\<lambda>x :: assignment \<times> worker \<times> house. worker_id (fst x) \<noteq> Some wid)"
    by (simp add: fun_eq_iff)
  then show ?thesis
    unfolding history_join_def filter_order_by_desc join_all_worker_filter by simp
qed

lemma history_join_delete_house:
  "history_join ws (filter (\<lambda>h. fst h \<noteq> hid) hs) rs =
     filter (\<lambda>(a, w, h). house_id a \<noteq> Some hid) (history_join ws hs rs)"
proof -
  have "(\<lambda>(a, w, h). house_id a \<noteq> Some hid) =
        (\<lambda>x :: assignment \<times> worker \<times> house. house_id (fst x) \<noteq> Some hid)"
    by (simp add: fun_eq_iff)
  then show ?thesis
    unfolding history_join_def filter_order_by_desc join_all_house_filter by simp
qed

lemma select_history_ready:
  assumes "workers d = Some ws" "houses d = Some hs" "assignment_history d = Some (cols, rs)"
    "list_all (has_column cols) all_columns"
  shows "select_history d = Inr (map history_columns (history_join ws hs rs))"
proof -
  have "missing_column cols
          [''quantity'', ''note'', ''assignment_date'', ''date_assigned'', ''email_sent'',
           ''worker_id'', ''house_id''] = None"
    using assms(4) by (rule missing_column_None) (simp add: all_columns_set)
  with assms(1-3) show ?thesis by (simp add: select_history_def)
qed

lemma delete_worker_db:
  assumes "workers (db_manager s) = Some ws" "i < length (workers_cache s)"
    "delete_worker (Some i) True s = (r, s', shown)"
  shows "db_manager s' =
     (db_manager s)\<lparr>workers := Some (filter (\<lambda>w. fst w \<noteq> fst (workers_cache s ! i)) ws)\<rparr>"
proof -
  let ?d = "(db_manager s)\<lparr>workers := Some (filter (\<lambda>w. fst w \<noteq> fst (workers_cache s ! i)) ws)\<rparr>"
  have "delete_worker_row (fst (workers_cache s ! i)) (db_manager s) = Inr ?d"
    using assms(1) by (simp add: delete_worker_row_def)
  with assms(2,3) have "refresh_both (s\<lparr>db_manager := ?d, current_worker := None\<rparr>) [] = (r, s', shown)"
    by (simp add: delete_worker_def execute_eq)
  from refresh_both_db [OF this] show ?thesis by simp
qed

lemma delete_house_db:
  assumes "houses (db_manager s) = Some hs" "hs \<noteq> []" "pick (sort_key snd hs) = Some house_data"
    "delete_house pick True s = (r, s', shown)"
  shows "db_manager s' =
     (db_manager s)\<lparr>houses := Some (filter (\<lambda>h. fst h \<noteq> fst house_data) hs)\<rparr>"
proof -
  let ?d = "(db_manager s)\<lparr>houses := Some (filter (\<lambda>h. fst h \<noteq> fst house_data) hs)\<rparr>"
  have 1: "select_houses (db_manager s) = Inr (sort_key snd hs)"
    using assms(1) by (simp add: select_houses_def)
  have 2: "sort_key snd hs \<noteq> []"
    using assms(2) by (metis length_sort length_0_conv)
  have "delete_house_row (fst house_data) (db_manager s) = Inr ?d"
    using assms(1) by (simp add: delete_house_row_def)
  with 1 2 assms(3,4) obtain r1 where "refresh_houses (s\<lparr>db_manager := ?d\<rparr>) = (r1, s')"
    by (auto simp: delete_house_def execute_eq fetch_all_eq split: prod.splits)
  from refresh_houses_db [OF this] show ?thesis by simp
qed

text \<open>
  Claim C10. On a ready store, after \<open>delete_worker\<close> has deleted the worker selected
  (and likewise after \<open>delete_house\<close> has deleted the house picked), the table
  \<^verbatim>\<open>assignment_history\<close> holds the same rows as before, while the list of
  \<open>load_history_data\<close> and the rows of \<open>export_history\<close> are those of before without
  every row whose \<^verbatim>\<open>worker_id\<close> (\<^verbatim>\<open>house_id\<close>) is the deleted key, the others in the
  same order.
\<close>

theorem deleted_entities_hidden:
  assumes "ready (db_manager s)"
  shows "\<exists>ws hs cols rs.
     workers (db_manager s) = Some ws \<and> houses (db_manager s) = Some hs \<and>
     assignment_history (db_manager s) = Some (cols, rs) \<and>
     load_history_data L (db_manager s) =
       Inr (map (\<lambda>x. row_values L (history_columns x)) (history_join ws hs rs)) \<and>
     (\<forall>i r s' shown.
        i < length (workers_cache s) \<and> delete_worker (Some i) True s = (r, s', shown) \<longrightarrow>
          assignment_history (db_manager s') = Some (cols, rs) \<and>
          load_history_data L (db_manager s') =
            Inr (map (\<lambda>x. row_values L (history_columns x))
                   (filter (\<lambda>(a, w, h). worker_id a \<noteq> Some (fst (workers_cache s ! i)))
                      (history_join ws hs rs))) \<and>
          (\<forall>filename. filename \<noteq> [] \<longrightarrow>
             fst (export_history L (db_manager s') filename) =
               Some (csv_header # map (\<lambda>x. csv_fields (row_values L (history_columns x)))
                   (filter (\<lambda>(a, w, h). worker_id a \<noteq> Some (fst (workers_cache s ! i)))
                      (history_join ws hs rs))))) \<and>
     (\<forall>pick house_data r s' shown.
        hs \<noteq> [] \<and> pick (sort_key snd hs) = Some house_data \<and>
        delete_house pick True s = (r, s', shown) \<longrightarrow>
          assignment_history (db_manager s') = Some (cols, rs) \<and>
          load_history_data L (db_manager s') =
            Inr (map (\<lambda>x. row_values L (history_columns x))
                   (filter (\<lambda>(a, w, h). house_id a \<noteq> Some (fst house_data))
                      (history_join ws hs rs))) \<and>
          (\<forall>filename. filename \<noteq> [] \<longrightarrow>
             fst (export_history L (db_manager s') filename) =
               Some (csv_header # map (\<lambda>x. csv_fields (row_values L (history_columns x)))
                   (filter (\<lambda>(a, w, h). house_id a \<noteq> Some (fst house_data))
                      (history_join ws hs rs)))))"
proof -
  from assms obtain ws hs cols rs where ws: "workers (db_manager s) = Some ws"
    and hs: "houses (db_manager s) = Some hs"
    and ah: "assignment_history (db_manager s) = Some (cols, rs)"
    and cols: "list_all (has_column cols) all_columns"
    by (rule readyE)
  have l0: "load_history_data L (db_manager s) =
       Inr (map (\<lambda>x. row_values L (history_columns x)) (history_join ws hs rs))"
    using select_history_ready [OF ws hs ah cols]
    by (simp add: load_history_data_def fetch_all_eq comp_def)
  have w: "assignment_history (db_manager s') = Some (cols, rs) \<and>
          load_history_data L (db_manager s') =
            Inr (map (\<lambda>x. row_values L (history_columns x))
                   (filter (\<lambda>(a, w, h). worker_id a \<noteq> Some (fst (workers_cache s ! i)))
                      (history_join ws hs rs))) \<and>
          (\<forall>filename. filename \<noteq> [] \<longrightarrow>
             fst (export_history L (db_manager s') filename) =
               Some (csv_header # map (\<lambda>x. csv_fields (row_values L (history_columns x)))
                   (filter (\<lambda>(a, w, h). worker_id a \<noteq> Some (fst (workers_cache s ! i)))
                      (history_join ws hs rs))))"
    if "i < length (workers_cache s)" "delete_worker (Some i) True s = (r, s', shown)"
    for i r s' shown
  proof -
    let ?ws = "filter (\<lambda>w. fst w \<noteq> fst (workers_cache s ! i)) ws"
    from delete_worker_db [OF ws that] have d': "db_manager s' = (db_manager s)\<lparr>workers := Some ?ws\<rparr>" .
    have "select_history (db_manager s') = Inr (map history_columns (history_join ?ws hs rs))"
      by (rule select_history_ready [OF _ _ _ cols]) (simp_all add: d' hs ah)
    then show ?thesis
      by (simp add: d' ah load_history_data_def export_history_def fetch_all_eq comp_def
          history_join_delete_worker)
  qed
  have h: "assignment_history (db_manager s') = Some (cols, rs) \<and>
          load_history_data L (db_manager s') =
            Inr (map (\<lambda>x. row_values L (history_columns x))
                   (filter (\<lambda>(a, w, h). house_id a \<noteq> Some (fst house_data))
                      (history_join ws hs rs))) \<and>
          (\<forall>filename. filename \<noteq> [] \<longrightarrow>
             fst (export_history L (db_manager s') filename) =
               Some (csv_header # map (\<lambda>x. csv_fields (row_values L (history_columns x)))
                   (filter (\<lambda>(a, w, h). house_id a \<noteq> Some (fst house_data))
                      (history_join ws hs rs))))"
    if "hs \<noteq> []" "pick (sort_key snd hs) = Some house_data"
      "delete_house pick True s = (r, s', shown)"
    for pick house_data r s' shown
  proof -
    let ?hs = "filter (\<lambda>h. fst h \<noteq> fst house_data) hs"
    from delete_house_db [OF hs that] have d': "db_manager s' = (db_manager s)\<lparr>houses := Some ?hs\<rparr>" .
    have "select_history (db_manager s') = Inr (map history_columns (history_join ws ?hs rs))"
      by (rule select_history_ready [OF _ _ _ cols]) (simp_all add: d' ws ah)
    then show ?thesis
      by (simp add: d' ah load_history_data_def export_history_def fetch_all_eq comp_def
          history_join_delete_house)
  qed
  show ?thesis
    apply (rule exI [of _ ws], rule exI [of _ hs], rule exI [of _ cols], rule exI [of _ rs])
    apply (intro conjI)
    apply (rule ws, rule hs, rule ah, rule l0)
    using w apply blast
    using h apply blast
    done
qed

theorem deleted_entities_hidden_witness:
  "ready (db_manager history_app) \<and>
   load_history_data example_lib (db_manager history_app) =
     Inr [southfield_values, northgate_values] \<and>
   assignment_history (db_manager (fst (snd (delete_worker (Some 0) True history_app)))) =
     Some (all_columns, [sent_row, pending_row]) \<and>
   load_history_data example_lib (db_manager (fst (snd (delete_worker (Some 0) True history_app)))) =
     Inr [] \<and>
   fst (export_history example_lib
          (db_manager (fst (snd (delete_worker (Some 0) True history_app)))) ''out.csv'') =
     Some [csv_header] \<and>
   assignment_history
     (db_manager (fst (snd (delete_house (\<lambda>hs. Some (1, ''Northgate'')) True history_app)))) =
     Some (all_columns, [sent_row, pending_row]) \<and>
   load_history_data example_lib
     (db_manager (fst (snd (delete_house (\<lambda>hs. Some (1, ''Northgate'')) True history_app)))) =
     Inr [southfield_values]"
proof -
  let ?dw = "delete_worker (Some 0) True history_app"
  let ?dh = "delete_house (\<lambda>hs. Some (1, ''Northgate'')) True history_app"
  have r: "ready (db_manager history_app)" by code_simp
  have l0: "load_history_data example_lib (db_manager history_app) =
     Inr [southfield_values, northgate_values]" by code_simp
  have ws: "workers (db_manager history_app) = Some [(1, ''Ana'', ''ana@x.com'')]" by code_simp
  have hs: "houses (db_manager history_app) = Some [(2, ''Southfield''), (1, ''Northgate'')]"
    by code_simp
  have ah: "assignment_history (db_manager history_app) = Some (all_columns, [sent_row, pending_row])"
    by code_simp
  have i: "0 < length (workers_cache history_app)" by code_simp
  have fw: "map (\<lambda>x. row_values example_lib (history_columns x))
      (filter (\<lambda>(a, w, h). worker_id a \<noteq> Some (fst (workers_cache history_app ! 0)))
         (history_join [(1, ''Ana'', ''ana@x.com'')] [(2, ''Southfield''), (1, ''Northgate'')]
            [sent_row, pending_row])) = []"
    by code_simp
  have fh: "map (\<lambda>x. row_values example_lib (history_columns x))
      (filter (\<lambda>(a, w, h). house_id a \<noteq> Some (fst (1 :: int, ''Northgate'')))
         (history_join [(1, ''Ana'', ''ana@x.com'')] [(2, ''Southfield''), (1, ''Northgate'')]
            [sent_row, pending_row])) = [southfield_values]"
    by code_simp
  from deleted_entities_hidden [OF r, of example_lib] ws hs ah
  have W: "\<forall>i r s' shown.
        i < length (workers_cache history_app) \<and> delete_worker (Some i) True history_app = (r, s', shown) \<longrightarrow>
          assignment_history (db_manager s') = Some (all_columns, [sent_row, pending_row]) \<and>
          load_history_data example_lib (db_manager s') =
            Inr (map (\<lambda>x. row_values example_lib (history_columns x))
                   (filter (\<lambda>(a, w, h). worker_id a \<noteq> Some (fst (workers_cache history_app ! i)))
                      (history_join [(1, ''Ana'', ''ana@x.com'')] [(2, ''Southfield''), (1, ''Northgate'')]
            [sent_row, pending_row]))) \<and>
          (\<forall>filename. filename \<noteq> [] \<longrightarrow>
             fst (export_history example_lib (db_manager s') filename) =
               Some (csv_header # map (\<lambda>x. csv_fields (row_values example_lib (history_columns x)))
                   (filter (\<lambda>(a, w, h). worker_id a \<noteq> Some (fst (workers_cache history_app ! i)))
                      (history_join [(1, ''Ana'', ''ana@x.com'')] [(2, ''Southfield''), (1, ''Northgate'')]
            [sent_row, pending_row]))))"
    and H: "\<forall>pick house_data r s' shown.
        [(2 :: int, ''Southfield''), (1, ''Northgate'')] \<noteq> [] \<and>
        pick (sort_key snd [(2 :: int, ''Southfield''), (1, ''Northgate'')]) = Some house_data \<and>
        delete_house pick True history_app = (r, s', shown) \<longrightarrow>
          assignment_history (db_manager s') = Some (all_columns, [sent_row, pending_row]) \<and>
          load_history_data example_lib (db_manager s') =
            Inr (map (\<lambda>x. row_values example_lib (history_columns x))
                   (filter (\<lambda>(a, w, h). house_id a \<noteq> Some (fst house_data))
                      (history_join [(1, ''Ana'', ''ana@x.com'')] [(2, ''Southfield''), (1, ''Northgate'')]
            [sent_row, pending_row])))"
    by auto
  from W [rule_format, of 0 "fst ?dw" "fst (snd ?dw)" "snd (snd ?dw)"] i have w1: "assignment_history (db_manager (fst (snd ?dw))) =
       Some (all_columns, [sent_row, pending_row])"
    and w2: "load_history_data example_lib (db_manager (fst (snd ?dw))) =
            Inr (map (\<lambda>x. row_values example_lib (history_columns x))
                   (filter (\<lambda>(a, w, h). worker_id a \<noteq> Some (fst (workers_cache history_app ! 0)))
                      (history_join [(1, ''Ana'', ''ana@x.com'')] [(2, ''Southfield''), (1, ''Northgate'')]
            [sent_row, pending_row])))"
    and w3: "fst (export_history example_lib (db_manager (fst (snd ?dw))) ''out.csv'') =
               Some (csv_header # map (\<lambda>x. csv_fields (row_values example_lib (history_columns x)))
                   (filter (\<lambda>(a, w, h). worker_id a \<noteq> Some (fst (workers_cache history_app ! 0)))
                      (history_join [(1, ''Ana'', ''ana@x.com'')] [(2, ''Southfield''), (1, ''Northgate'')]
            [sent_row, pending_row])))"
    by simp_all
  from H [rule_format, of "\<lambda>hs. Some (1, ''Northgate'')" "(1, ''Northgate'')" "fst ?dh"
      "fst (snd ?dh)" "snd (snd ?dh)"] have h1: "assignment_history (db_manager (fst (snd ?dh))) =
       Some (all_columns, [sent_row, pending_row])"
    and h2: "load_history_data example_lib (db_manager (fst (snd ?dh))) =
            Inr (map (\<lambda>x. row_values example_lib (history_columns x))
                   (filter (\<lambda>(a, w, h). house_id a \<noteq> Some (fst (1 :: int, ''Northgate'')))
                      (history_join [(1, ''Ana'', ''ana@x.com'')] [(2, ''Southfield''), (1, ''Northgate'')]
            [sent_row, pending_row])))"
    by simp_all
  have fw': "map (\<lambda>x. csv_fields (row_values example_lib (history_columns x)))
      (filter (\<lambda>(a, w, h). worker_id a \<noteq> Some (fst (workers_cache history_app ! 0)))
         (history_join [(1, ''Ana'', ''ana@x.com'')] [(2, ''Southfield''), (1, ''Northgate'')]
            [sent_row, pending_row])) = []"
    using fw by simp
  from r l0 w1 w2 w3 h1 h2 fw fw' fh show ?thesis by simp
qed

end
